theory Spec2Isabelle
  imports Main
begin

text \<open>
  The repository holds three versions of one MCP server that manages agent sandboxes on a
  cluster: \<^verbatim>\<open>remote-sandbox.ts\<close>, which talks to a proxy and addresses sandboxes by user
  name; a version that authenticates to the proxy with an API key and polls for readiness;
  and a version that drives \<^verbatim>\<open>kubectl\<close>. Each tool handler is modelled as a function from its
  arguments and from the outcomes of its calls to the outside (the configuration file, the
  HTTP requests, the shell commands) to the object it returns and the trace of what it
  asked of the outside.
\<close>

section \<open>JavaScript values\<close>

text \<open>
  The handlers work on untyped JSON (\<^verbatim>\<open>any\<close>): the parsed configuration file and the
  parsed response bodies. A value is what \<^verbatim>\<open>JSON.parse\<close> can return, plus
  \<^verbatim>\<open>undefined\<close>, which a read of an absent property yields. Numbers are the integers
  (ports, exit codes, HTTP status codes); an object is the list of its own properties.
  \<open>JNum n\<close> stands for a JavaScript number when \<open>n\<close> is one that a double holds exactly
  and whose magnitude is below \<open>10\<^sup>2\<^sup>1\<close>: fractions, \<^verbatim>\<open>NaN\<close> and the infinities have no
  counterpart here. A string is the list of its characters, each a code unit below 256.
\<close>

datatype js =
    JUndefined
  | JNull
  | JBool bool
  | JNum int
  | JStr string
  | JArr "js list"
  | JObj "(string \<times> js) list"

text \<open>Truthiness, as \<^verbatim>\<open>!x\<close>, \<^verbatim>\<open>x || y\<close> and \<^verbatim>\<open>if (x)\<close> see it.\<close>

fun truthy :: "js \<Rightarrow> bool" where
  "truthy JUndefined = False"
| "truthy JNull = False"
| "truthy (JBool b) = b"
| "truthy (JNum n) = (n \<noteq> 0)"
| "truthy (JStr s) = (s \<noteq> [])"
| "truthy (JArr xs) = True"
| "truthy (JObj kvs) = True"

fun nullish :: "js \<Rightarrow> bool" where
  "nullish JUndefined = True"
| "nullish JNull = True"
| "nullish (JBool b) = False"
| "nullish (JNum n) = False"
| "nullish (JStr s) = False"
| "nullish (JArr xs) = False"
| "nullish (JObj kvs) = False"

text \<open>\<^verbatim>\<open>a || b\<close> and \<^verbatim>\<open>a ?? b\<close> on values already evaluated.\<close>

definition js_or :: "js \<Rightarrow> js \<Rightarrow> js" where
  "js_or a b = (if truthy a then a else b)"

definition js_coalesce :: "js \<Rightarrow> js \<Rightarrow> js" where
  "js_coalesce a b = (if nullish a then b else a)"

definition sq :: string where
  "sq = [CHR 0x27]"

text \<open>
  \<^verbatim>\<open>v.k\<close> for a value that is neither \<^verbatim>\<open>null\<close> nor \<^verbatim>\<open>undefined\<close>: an own property
  of an object, \<^verbatim>\<open>undefined\<close> otherwise. None of the property names the handlers read is
  inherited from a prototype, so a primitive or an array has none of them.
\<close>

fun field :: "js \<Rightarrow> string \<Rightarrow> js" where
  "field (JObj kvs) k = (case map_of kvs k of Some v \<Rightarrow> v | None \<Rightarrow> JUndefined)"
| "field v k = JUndefined"

definition type_error :: "js \<Rightarrow> string \<Rightarrow> string" where
  "type_error v k =
     ''Cannot read properties of '' @ (if v = JNull then ''null'' else ''undefined'')
       @ '' (reading '' @ sq @ k @ sq @ '')''"

text \<open>\<^verbatim>\<open>v.k\<close> in general: reading a property of \<^verbatim>\<open>null\<close> or \<^verbatim>\<open>undefined\<close> throws a TypeError.\<close>

definition get_prop :: "js \<Rightarrow> string \<Rightarrow> string + js" where
  "get_prop v k = (if nullish v then Inl (type_error v k) else Inr (field v k))"

text \<open>\<^verbatim>\<open>v?.k\<close>\<close>

definition opt_field :: "js \<Rightarrow> string \<Rightarrow> js" where
  "opt_field v k = (if nullish v then JUndefined else field v k)"

text \<open>Decimal numerals, for numbers inside template literals.\<close>

fun show_nat :: "nat \<Rightarrow> string" where
  "show_nat n =
     (if n < 10 then [''0123456789'' ! n]
      else show_nat (n div 10) @ [''0123456789'' ! (n mod 10)])"

declare show_nat.simps [simp del]

definition show_int :: "int \<Rightarrow> string" where
  "show_int i = (if i < 0 then ''-'' @ show_nat (nat (- i)) else show_nat (nat i))"

fun join :: "string \<Rightarrow> string list \<Rightarrow> string" where
  "join sep [] = []"
| "join sep [x] = x"
| "join sep (x # y # ys) = x @ sep @ join sep (y # ys)"

text \<open>
  The string a template literal \<^verbatim>\<open>`${v}`\<close> inserts for a value. A number is printed in
  decimal digits, as JavaScript does for the integers of magnitude below \<open>10\<^sup>2\<^sup>1\<close>; from
  there on JavaScript prints an exponent (\<^verbatim>\<open>1e+21\<close>), which \<open>to_string\<close> does not follow.
\<close>

fun to_string :: "js \<Rightarrow> string" where
  "to_string JUndefined = ''undefined''"
| "to_string JNull = ''null''"
| "to_string (JBool b) = (if b then ''true'' else ''false'')"
| "to_string (JNum n) = show_int n"
| "to_string (JStr s) = s"
| "to_string (JArr xs) = join '','' (map (\<lambda>x. if nullish x then [] else to_string x) xs)"
| "to_string (JObj kvs) = ''[object Object]''"

text \<open>Optional tool arguments (\<^verbatim>\<open>z.string().optional()\<close>, \<^verbatim>\<open>z.number().optional()\<close>).\<close>

definition opt_str :: "string option \<Rightarrow> js" where
  "opt_str a = (case a of None \<Rightarrow> JUndefined | Some s \<Rightarrow> JStr s)"

definition opt_num :: "int option \<Rightarrow> js" where
  "opt_num a = (case a of None \<Rightarrow> JUndefined | Some n \<Rightarrow> JNum n)"

section \<open>Effects\<close>

text \<open>
  A handler talks to the outside through \<^verbatim>\<open>fetch\<close>, \<^verbatim>\<open>setTimeout\<close>, the shell
  (\<^verbatim>\<open>execAsync\<close>) and the file system. What the outside answers is an input of the model;
  what the handler asks of it is recorded, in order, in a trace. Reading the
  configuration file is an input only (it is neither a network request nor a process).
\<close>

record request =
  http_method :: string
  url :: string
  headers :: "(string \<times> string) list"
  body :: js

datatype event =
    Sleep nat
  | Fetch request
  | Exec string
  | WriteFile string string
  | Unlink string

text \<open>
  A computation either throws (\<open>Inl\<close> the \<^verbatim>\<open>message\<close> of the error) or returns, and
  has performed the events of its trace by then.
\<close>

type_synonym 'a comp = "(string + 'a) \<times> event list"

definition ret :: "'a \<Rightarrow> 'a comp" where
  "ret v = (Inr v, [])"

definition throw :: "string \<Rightarrow> 'a comp" where
  "throw e = (Inl e, [])"

definition liftE :: "string + 'a \<Rightarrow> 'a comp" where
  "liftE r = (r, [])"

definition emit :: "event \<Rightarrow> unit comp" where
  "emit ev = (Inr (), [ev])"

definition bindC :: "'a comp \<Rightarrow> ('a \<Rightarrow> 'b comp) \<Rightarrow> 'b comp" where
  "bindC m f =
     (case m of
        (Inl e, t) \<Rightarrow> (Inl e, t)
      | (Inr v, t) \<Rightarrow> (case f v of (r, t') \<Rightarrow> (r, t @ t')))"

text \<open>\<^verbatim>\<open>try { m } catch (e) { }\<close> around a computation whose value is not used.\<close>

definition ignore_errors :: "'a comp \<Rightarrow> unit comp" where
  "ignore_errors m = (Inr (), snd m)"

datatype body_read = BodyError string | BodyJson js

datatype fetch_outcome = Rejected string | Response nat body_read

definition ok :: "nat \<Rightarrow> bool" where
  "ok st = (200 \<le> st \<and> st \<le> 299)"

definition fetch :: "request \<Rightarrow> fetch_outcome \<Rightarrow> (nat \<times> body_read) comp" where
  "fetch req out =
     (case out of
        Rejected m \<Rightarrow> (Inl m, [Fetch req])
      | Response st b \<Rightarrow> (Inr (st, b), [Fetch req]))"

text \<open>\<^verbatim>\<open>await response.json()\<close>\<close>

definition json :: "body_read \<Rightarrow> js comp" where
  "json b = (case b of BodyError m \<Rightarrow> throw m | BodyJson v \<Rightarrow> ret v)"

text \<open>
  The object every handler's \<^verbatim>\<open>catch\<close> block serialises, and the handler's outer
  \<^verbatim>\<open>try\<close>/\<^verbatim>\<open>catch\<close>. A result is the object handed to \<^verbatim>\<open>JSON.stringify\<close>.
\<close>

definition failure :: "string \<Rightarrow> js" where
  "failure msg = JObj [(''success'', JBool False), (''error'', JStr msg)]"

definition handler :: "js comp \<Rightarrow> js \<times> event list" where
  "handler m = (case m of (Inl e, t) \<Rightarrow> (failure e, t) | (Inr v, t) \<Rightarrow> (v, t))"

fun is_failure :: "js \<Rightarrow> bool" where
  "is_failure (JObj [(k1, JBool b), (k2, JStr msg)]) =
     (k1 = ''success'' \<and> \<not> b \<and> k2 = ''error'')"
| "is_failure v = False"

text \<open>
  The non-success branch shared by the proxy handlers:
  \<^verbatim>\<open>const errorData = await response.json();
  throw new Error(`<what>${errorData.error || errorData.message}`);\<close>
\<close>

definition backend_error :: "string \<Rightarrow> body_read \<Rightarrow> 'a comp" where
  "backend_error what b =
     bindC (json b) (\<lambda>errorData.
     bindC (liftE (get_prop errorData ''error'')) (\<lambda>e.
     throw (what @ to_string (js_or e (field errorData ''message'')))))"

section \<open>Configuration\<close>

datatype config_read = ENOENT | ReadError string | ParseError string | Parsed js

text \<open>
  What a handler finds around it: the path and the state of the configuration file, the
  clock (\<^verbatim>\<open>Date.now()\<close>) and the runtime's \<^verbatim>\<open>JSON.stringify\<close> and \<^verbatim>\<open>JSON.parse\<close>,
  which are not part of this program and are left arbitrary.
\<close>

record env =
  configPath :: string
  configFile :: config_read
  now :: nat
  stringify :: "js \<Rightarrow> string"
  parseJSON :: "string \<Rightarrow> string + js"

definition config_not_found :: "string \<Rightarrow> string" where
  "config_not_found path =
     ''Config file not found at '' @ path
       @ ''. Please create it with at least a 'proxyUrl' field.''"

definition proxyUrl_required :: string where
  "proxyUrl_required =
     ''proxyUrl is required in config.json. Please set it to your proxy URL (e.g., http://34.27.37.121)''"

definition apiKey_required :: string where
  "apiKey_required =
     ''apiKey is required in config.json. Generate one via the admin API: POST /api/admin/users/<userId>/apikeys''"

definition proxyUrl_not_configured :: string where
  "proxyUrl_not_configured = ''proxyUrl not configured. Please set proxyUrl in config.json''"

text \<open>
  The object \<^verbatim>\<open>create_sandbox\<close> of the two proxy clients returns once it has a
  \<^verbatim>\<open>sandboxData\<close> it can read: \<^verbatim>\<open>sandboxData.name || name\<close>,
  \<^verbatim>\<open>sandboxData.namespace || <fallback>\<close>, \<^verbatim>\<open>sandboxData.serviceFQDN || 'pending'\<close>,
  \<^verbatim>\<open>sandboxData.ready || false\<close>.
\<close>

definition created :: "string \<Rightarrow> js \<Rightarrow> js \<Rightarrow> js" where
  "created name sandboxData fallback =
     JObj [(''success'', JBool True),
           (''message'', JStr (''Sandbox '' @ sq @ name @ sq @ '' created successfully'')),
           (''sandbox'', JObj [
              (''name'', js_or (field sandboxData ''name'') (JStr name)),
              (''namespace'', js_or (field sandboxData ''namespace'') fallback),
              (''serviceFQDN'', js_or (field sandboxData ''serviceFQDN'') (JStr ''pending'')),
              (''ready'', js_or (field sandboxData ''ready'') (JBool False))])]"

section \<open>The proxy client with an API key\<close>

text \<open>
  The variant whose configuration carries \<^verbatim>\<open>proxyUrl\<close> and \<^verbatim>\<open>apiKey\<close>; sandboxes are
  addressed as \<^verbatim>\<open>/api/sandboxes/{name}\<close> and every request carries the bearer header.
  Its handlers' \<^verbatim>\<open>console.error\<close> calls write to the log only and are left out.
\<close>

definition loadConfig_apikey :: "env \<Rightarrow> string + js" where
  "loadConfig_apikey e =
     (case configFile e of
        ENOENT \<Rightarrow> Inl (config_not_found (configPath e))
      | ReadError m \<Rightarrow> Inl m
      | ParseError m \<Rightarrow> Inl m
      | Parsed config \<Rightarrow>
          (case get_prop config ''proxyUrl'' of
             Inl m \<Rightarrow> Inl m
           | Inr u \<Rightarrow>
               if \<not> truthy u then Inl proxyUrl_required
               else if \<not> truthy (field config ''apiKey'') then Inl apiKey_required
               else Inr config))"

definition bearer :: "js \<Rightarrow> string \<times> string" where
  "bearer config = (''Authorization'', ''Bearer '' @ to_string (field config ''apiKey''))"

definition content_type_json :: "string \<times> string" where
  "content_type_json = (''Content-Type'', ''application/json'')"

definition maxAttempts :: nat where
  "maxAttempts = 12"

text \<open>
  One pass through the \<^verbatim>\<open>try\<close> block of the polling loop, after the request was sent:
  the new value of \<^verbatim>\<open>sandboxData\<close> and whether the loop breaks with \<^verbatim>\<open>ready = true\<close>.
  Whatever is thrown inside (the rejected \<^verbatim>\<open>fetch\<close>, the unreadable body, the read of
  \<^verbatim>\<open>ready\<close> on a \<^verbatim>\<open>null\<close> body) is caught by the empty \<^verbatim>\<open>catch\<close>; the assignment to
  \<^verbatim>\<open>sandboxData\<close> that came before the throw stays.
\<close>

definition attempt_apikey :: "js \<Rightarrow> fetch_outcome \<Rightarrow> js \<times> bool" where
  "attempt_apikey sandboxData out =
     (case out of
        Rejected m \<Rightarrow> (sandboxData, False)
      | Response st b \<Rightarrow>
          if ok st then
            (case b of
               BodyError m \<Rightarrow> (sandboxData, False)
             | BodyJson d \<Rightarrow>
                 (case get_prop d ''ready'' of
                    Inl m \<Rightarrow> (d, False)
                  | Inr r \<Rightarrow> (d, truthy r)))
          else (sandboxData, False))"

text \<open>
  \<^verbatim>\<open>for (let attempt = 0; attempt < maxAttempts; attempt++)\<close>: the final
  \<^verbatim>\<open>sandboxData\<close>, the flag \<^verbatim>\<open>ready\<close> and the events of the remaining iterations.
  \<open>status i\<close> is what the outside answers to the status request of iteration \<open>i\<close>.
\<close>

function poll_apikey ::
  "request \<Rightarrow> (nat \<Rightarrow> fetch_outcome) \<Rightarrow> nat \<Rightarrow> js \<Rightarrow> js \<times> bool \<times> event list" where
  "poll_apikey req status attempt sandboxData =
     (if attempt < maxAttempts then
        (let (d, ready) = attempt_apikey sandboxData (status attempt) in
         if ready then (d, True, [Sleep 5000, Fetch req])
         else
           (let (d', ready', t) = poll_apikey req status (attempt + 1) d
            in (d', ready', Sleep 5000 # Fetch req # t)))
      else (sandboxData, False, []))"
  by pat_completeness auto
termination
  by (relation "measure (\<lambda>(req, status, attempt, sandboxData). maxAttempts - attempt)") auto

declare poll_apikey.simps [simp del]

definition create_request_apikey :: "js \<Rightarrow> string \<Rightarrow> string option \<Rightarrow> int option \<Rightarrow> request" where
  "create_request_apikey config name img port =
     (let sandboxImage = js_or (opt_str img) (field config ''defaultImage'');
          sandboxPort = js_or (js_or (opt_num port) (field config ''defaultPort'')) (JNum 8888);
          createUrl = to_string (field config ''proxyUrl'') @ ''/api/sandboxes''
      in \<lparr>http_method = ''POST'', url = createUrl,
          headers = [content_type_json, bearer config],
          body = JObj [(''name'', JStr name), (''image'', sandboxImage),
                       (''port'', sandboxPort)]\<rparr>)"

definition status_request_apikey :: "js \<Rightarrow> string \<Rightarrow> request" where
  "status_request_apikey config name =
     (let statusUrl = to_string (field config ''proxyUrl'') @ ''/api/sandboxes/'' @ name
      in \<lparr>http_method = ''GET'', url = statusUrl, headers = [bearer config], body = JUndefined\<rparr>)"

definition create_sandbox_apikey ::
  "env \<Rightarrow> string \<Rightarrow> string option \<Rightarrow> int option \<Rightarrow> fetch_outcome \<Rightarrow> (nat \<Rightarrow> fetch_outcome)
     \<Rightarrow> js \<times> event list" where
  "create_sandbox_apikey e name img port createOut status =
     handler (
       bindC (liftE (loadConfig_apikey e)) (\<lambda>config.
       bindC (fetch (create_request_apikey config name img port) createOut) (\<lambda>(st, b).
       if \<not> ok st then backend_error ''Failed to create sandbox: '' b
       else
         bindC (json b) (\<lambda>createData.
         let (sandboxData, ready, t) =
               poll_apikey (status_request_apikey config name) status 0 (JObj [])
         in
         bindC (Inr (), t) (\<lambda>_.
         bindC (liftE (get_prop sandboxData ''name'')) (\<lambda>_.
         ret (created name sandboxData (JStr ''pending''))))))))"

definition get_sandbox_status_apikey :: "env \<Rightarrow> string \<Rightarrow> fetch_outcome \<Rightarrow> js \<times> event list" where
  "get_sandbox_status_apikey e name out =
     handler (
       bindC (liftE (loadConfig_apikey e)) (\<lambda>config.
       let url = to_string (field config ''proxyUrl'') @ ''/api/sandboxes/'' @ name in
       bindC (fetch \<lparr>http_method = ''GET'', url = url, headers = [bearer config],
                     body = JUndefined\<rparr> out) (\<lambda>(st, b).
       if \<not> ok st then
         (if st = 404 then throw (''Sandbox '' @ sq @ name @ sq @ '' not found'')
          else backend_error ''Failed to get sandbox status: '' b)
       else json b)))"

definition send_prompt_to_sandbox_apikey ::
  "env \<Rightarrow> string \<Rightarrow> string \<Rightarrow> fetch_outcome \<Rightarrow> js \<times> event list" where
  "send_prompt_to_sandbox_apikey e name command out =
     handler (
       bindC (liftE (loadConfig_apikey e)) (\<lambda>config.
       if \<not> truthy (field config ''proxyUrl'') then throw proxyUrl_not_configured
       else
         let url = to_string (field config ''proxyUrl'') @ ''/proxy/'' @ name @ ''/v1/shell/exec'' in
         bindC (fetch \<lparr>http_method = ''POST'', url = url,
                       headers = [content_type_json, bearer config],
                       body = JObj [(''command'', JStr command)]\<rparr> out) (\<lambda>(st, b).
         if \<not> ok st then
           bindC (json b) (\<lambda>errorData.
           throw (''Proxy returned '' @ show_nat st @ '': '' @ stringify e errorData))
         else
           bindC (json b) (\<lambda>data.
           bindC (liftE (get_prop data ''data'')) (\<lambda>d.
           let output = js_or (opt_field d ''output'') (JStr []);
               exitCode = js_coalesce (opt_field d ''exit_code'') (JNum (- 1))
           in
           ret (JObj [(''success'', field data ''success''),
                      (''sandbox'', JStr name),
                      (''command'', JStr command),
                      (''result'', JObj [
                         (''output'', output),
                         (''exit_code'', exitCode),
                         (''session_id'', opt_field d ''session_id'')])]))))))"

definition list_sandboxes_apikey :: "env \<Rightarrow> fetch_outcome \<Rightarrow> js \<times> event list" where
  "list_sandboxes_apikey e out =
     handler (
       bindC (liftE (loadConfig_apikey e)) (\<lambda>config.
       let url = to_string (field config ''proxyUrl'') @ ''/api/sandboxes'' in
       bindC (fetch \<lparr>http_method = ''GET'', url = url, headers = [bearer config],
                     body = JUndefined\<rparr> out) (\<lambda>(st, b).
       if \<not> ok st then backend_error ''Failed to list sandboxes: '' b
       else json b)))"

definition delete_sandbox_apikey :: "env \<Rightarrow> string \<Rightarrow> fetch_outcome \<Rightarrow> js \<times> event list" where
  "delete_sandbox_apikey e name out =
     handler (
       bindC (liftE (loadConfig_apikey e)) (\<lambda>config.
       let url = to_string (field config ''proxyUrl'') @ ''/api/sandboxes/'' @ name in
       bindC (fetch \<lparr>http_method = ''DELETE'', url = url, headers = [bearer config],
                     body = JUndefined\<rparr> out) (\<lambda>(st, b).
       if \<not> ok st then
         (if st = 404 then throw (''Sandbox '' @ sq @ name @ sq @ '' not found'')
          else backend_error ''Failed to delete sandbox: '' b)
       else json b)))"

definition pause_sandbox_apikey :: "env \<Rightarrow> string \<Rightarrow> fetch_outcome \<Rightarrow> js \<times> event list" where
  "pause_sandbox_apikey e name out =
     handler (
       bindC (liftE (loadConfig_apikey e)) (\<lambda>config.
       let url = to_string (field config ''proxyUrl'') @ ''/api/sandboxes/'' @ name @ ''/pause'' in
       bindC (fetch \<lparr>http_method = ''POST'', url = url, headers = [bearer config],
                     body = JUndefined\<rparr> out) (\<lambda>(st, b).
       if \<not> ok st then
         (if st = 404 then throw (''Sandbox '' @ sq @ name @ sq @ '' not found'')
          else backend_error ''Failed to pause sandbox: '' b)
       else json b)))"

definition resume_sandbox_apikey :: "env \<Rightarrow> string \<Rightarrow> fetch_outcome \<Rightarrow> js \<times> event list" where
  "resume_sandbox_apikey e name out =
     handler (
       bindC (liftE (loadConfig_apikey e)) (\<lambda>config.
       let url = to_string (field config ''proxyUrl'') @ ''/api/sandboxes/'' @ name @ ''/resume'' in
       bindC (fetch \<lparr>http_method = ''POST'', url = url, headers = [bearer config],
                     body = JUndefined\<rparr> out) (\<lambda>(st, b).
       if \<not> ok st then
         (if st = 404 then throw (''Sandbox '' @ sq @ name @ sq @ '' not found'')
          else backend_error ''Failed to resume sandbox: '' b)
       else json b)))"

section \<open>The proxy client addressed by user name\<close>

text \<open>
  \<^verbatim>\<open>remote-sandbox.ts\<close>: the configuration carries \<^verbatim>\<open>proxyUrl\<close> and optionally
  \<^verbatim>\<open>username\<close> and \<^verbatim>\<open>namespace\<close>; sandboxes are addressed as
  \<^verbatim>\<open>/api/sandboxes/{username}/{name}\<close> and no request carries a credential.
\<close>

definition loadConfig_username :: "env \<Rightarrow> string + js" where
  "loadConfig_username e =
     (case configFile e of
        ENOENT \<Rightarrow> Inl (config_not_found (configPath e))
      | ReadError m \<Rightarrow> Inl m
      | ParseError m \<Rightarrow> Inl m
      | Parsed config \<Rightarrow>
          (case get_prop config ''proxyUrl'' of
             Inl m \<Rightarrow> Inl m
           | Inr u \<Rightarrow> if \<not> truthy u then Inl proxyUrl_required else Inr config))"

definition nl :: string where
  "nl = [CHR 0x0A]"

text \<open>The shell command that writes the Gemini settings file inside the sandbox.\<close>

definition settingsCommand :: "js \<Rightarrow> string" where
  \<open>settingsCommand sandboxPort =
     ''mkdir -p ~/.gemini && cat > ~/.gemini/settings.json << 'EOFJSON'' @ sq @ nl
     @ ''{'' @ nl
     @ ''  "mcpServers": {'' @ nl
     @ ''    "sandbox": {'' @ nl
     @ ''      "httpUrl": "http://localhost:'' @ to_string sandboxPort @ ''/mcp",'' @ nl
     @ ''      "args": []'' @ nl
     @ ''    }'' @ nl
     @ ''  }'' @ nl
     @ ''}'' @ nl
     @ ''EOFJSON''\<close>

definition create_request_username :: "js \<Rightarrow> string \<Rightarrow> string option \<Rightarrow> int option \<Rightarrow> request" where
  "create_request_username config name img port =
     (let sandboxImage = js_or (opt_str img) (field config ''defaultImage'');
          sandboxPort = js_or (js_or (opt_num port) (field config ''defaultPort'')) (JNum 8888);
          username = js_or (field config ''username'') (JStr ''default'');
          namespace = js_or (field config ''namespace'') (JStr ''default'');
          createUrl = to_string (field config ''proxyUrl'') @ ''/api/sandboxes''
      in \<lparr>http_method = ''POST'', url = createUrl, headers = [content_type_json],
          body = JObj [(''name'', JStr name), (''username'', username),
                       (''image'', sandboxImage), (''port'', sandboxPort),
                       (''namespace'', namespace)]\<rparr>)"

definition status_request_username :: "js \<Rightarrow> string \<Rightarrow> request" where
  "status_request_username config name =
     (let username = js_or (field config ''username'') (JStr ''default'');
          statusUrl = to_string (field config ''proxyUrl'') @ ''/api/sandboxes/''
                        @ to_string username @ ''/'' @ name
      in \<lparr>http_method = ''GET'', url = statusUrl, headers = [], body = JUndefined\<rparr>)"

text \<open>The request that pushes the settings into the new sandbox.\<close>

definition push_request :: "js \<Rightarrow> js \<Rightarrow> string \<Rightarrow> js \<Rightarrow> request" where
  "push_request proxyUrl username name sandboxPort =
     (let execUrl = to_string proxyUrl @ ''/'' @ to_string username
                      @ ''/'' @ name @ ''/v1/shell/exec''
      in \<lparr>http_method = ''POST'', url = execUrl, headers = [content_type_json],
          body = JObj [(''command'', JStr (settingsCommand sandboxPort))]\<rparr>)"

definition create_sandbox_username ::
  "env \<Rightarrow> string \<Rightarrow> string option \<Rightarrow> int option
     \<Rightarrow> fetch_outcome \<Rightarrow> fetch_outcome \<Rightarrow> fetch_outcome \<Rightarrow> js \<times> event list" where
  "create_sandbox_username e name img port createOut statusOut pushOut =
     handler (
       bindC (liftE (loadConfig_username e)) (\<lambda>config.
       let sandboxPort = js_or (js_or (opt_num port) (field config ''defaultPort'')) (JNum 8888);
           username = js_or (field config ''username'') (JStr ''default'');
           namespace = js_or (field config ''namespace'') (JStr ''default'')
       in
       bindC (fetch (create_request_username config name img port) createOut) (\<lambda>(st, b).
       if \<not> ok st then backend_error ''Failed to create sandbox: '' b
       else
         bindC (json b) (\<lambda>createData.
         bindC (emit (Sleep 30000)) (\<lambda>_.
         bindC (fetch (status_request_username config name) statusOut) (\<lambda>(sst, sb).
         bindC (if ok sst then json sb else ret (JObj [])) (\<lambda>sandboxData.
         bindC (ignore_errors
                  (fetch (push_request (field config ''proxyUrl'') username name sandboxPort)
                     pushOut)) (\<lambda>_.
         bindC (liftE (get_prop sandboxData ''name'')) (\<lambda>_.
         ret (created name sandboxData namespace))))))))))"

definition get_sandbox_status_username :: "env \<Rightarrow> string \<Rightarrow> fetch_outcome \<Rightarrow> js \<times> event list" where
  "get_sandbox_status_username e name out =
     handler (
       bindC (liftE (loadConfig_username e)) (\<lambda>config.
       let username = js_or (field config ''username'') (JStr ''default'');
           url = to_string (field config ''proxyUrl'') @ ''/api/sandboxes/''
                   @ to_string username @ ''/'' @ name in
       bindC (fetch \<lparr>http_method = ''GET'', url = url, headers = [], body = JUndefined\<rparr> out)
         (\<lambda>(st, b).
       if \<not> ok st then
         (if st = 404 then throw (''Sandbox '' @ sq @ name @ sq @ '' not found'')
          else backend_error ''Failed to get sandbox status: '' b)
       else json b)))"

definition send_prompt_to_sandbox_username ::
  "env \<Rightarrow> string \<Rightarrow> string \<Rightarrow> fetch_outcome \<Rightarrow> js \<times> event list" where
  "send_prompt_to_sandbox_username e name command out =
     handler (
       bindC (liftE (loadConfig_username e)) (\<lambda>config.
       if \<not> truthy (field config ''proxyUrl'') then throw proxyUrl_not_configured
       else
         let username = js_or (field config ''username'') (JStr ''default'');
             url = to_string (field config ''proxyUrl'') @ ''/'' @ to_string username
                     @ ''/'' @ name @ ''/v1/shell/exec'' in
         bindC (fetch \<lparr>http_method = ''POST'', url = url, headers = [content_type_json],
                       body = JObj [(''command'', JStr command)]\<rparr> out) (\<lambda>(st, b).
         if \<not> ok st then
           bindC (json b) (\<lambda>errorData.
           throw (''Proxy returned '' @ show_nat st @ '': '' @ stringify e errorData))
         else
           bindC (json b) (\<lambda>data.
           bindC (liftE (get_prop data ''data'')) (\<lambda>d.
           let output = js_or (opt_field d ''output'') (JStr []);
               exitCode = js_coalesce (opt_field d ''exit_code'') (JNum (- 1))
           in
           ret (JObj [(''success'', field data ''success''),
                      (''sandbox'', JStr name),
                      (''command'', JStr command),
                      (''result'', JObj [
                         (''output'', output),
                         (''exit_code'', exitCode),
                         (''session_id'', opt_field d ''session_id'')])]))))))"

definition list_sandboxes_username :: "env \<Rightarrow> fetch_outcome \<Rightarrow> js \<times> event list" where
  "list_sandboxes_username e out =
     handler (
       bindC (liftE (loadConfig_username e)) (\<lambda>config.
       let url = to_string (field config ''proxyUrl'') @ ''/api/sandboxes'' in
       bindC (fetch \<lparr>http_method = ''GET'', url = url, headers = [], body = JUndefined\<rparr> out)
         (\<lambda>(st, b).
       if \<not> ok st then backend_error ''Failed to list sandboxes: '' b
       else json b)))"

text \<open>
  The address that delete, pause and resume build:
  \<^verbatim>\<open>`${config.proxyUrl}/api/sandboxes/${username}/${name}<action>?namespace=${namespace}`\<close>
\<close>

definition sandbox_url_username :: "js \<Rightarrow> string \<Rightarrow> string \<Rightarrow> string" where
  "sandbox_url_username config name action =
     (let username = js_or (field config ''username'') (JStr ''default'');
          namespace = js_or (field config ''namespace'') (JStr ''default'')
      in to_string (field config ''proxyUrl'') @ ''/api/sandboxes/'' @ to_string username
           @ ''/'' @ name @ action @ ''?namespace='' @ to_string namespace)"

definition delete_sandbox_username :: "env \<Rightarrow> string \<Rightarrow> fetch_outcome \<Rightarrow> js \<times> event list" where
  "delete_sandbox_username e name out =
     handler (
       bindC (liftE (loadConfig_username e)) (\<lambda>config.
       bindC (fetch \<lparr>http_method = ''DELETE'', url = sandbox_url_username config name [],
                     headers = [], body = JUndefined\<rparr> out) (\<lambda>(st, b).
       if \<not> ok st then
         (if st = 404 then throw (''Sandbox '' @ sq @ name @ sq @ '' not found'')
          else backend_error ''Failed to delete sandbox: '' b)
       else json b)))"

definition pause_sandbox_username :: "env \<Rightarrow> string \<Rightarrow> fetch_outcome \<Rightarrow> js \<times> event list" where
  "pause_sandbox_username e name out =
     handler (
       bindC (liftE (loadConfig_username e)) (\<lambda>config.
       bindC (fetch \<lparr>http_method = ''POST'', url = sandbox_url_username config name ''/pause'',
                     headers = [], body = JUndefined\<rparr> out) (\<lambda>(st, b).
       if \<not> ok st then
         (if st = 404 then throw (''Sandbox '' @ sq @ name @ sq @ '' not found'')
          else backend_error ''Failed to pause sandbox: '' b)
       else json b)))"

definition resume_sandbox_username :: "env \<Rightarrow> string \<Rightarrow> fetch_outcome \<Rightarrow> js \<times> event list" where
  "resume_sandbox_username e name out =
     handler (
       bindC (liftE (loadConfig_username e)) (\<lambda>config.
       bindC (fetch \<lparr>http_method = ''POST'', url = sandbox_url_username config name ''/resume'',
                     headers = [], body = JUndefined\<rparr> out) (\<lambda>(st, b).
       if \<not> ok st then
         (if st = 404 then throw (''Sandbox '' @ sq @ name @ sq @ '' not found'')
          else backend_error ''Failed to resume sandbox: '' b)
       else json b)))"

section \<open>The client that drives kubectl\<close>

text \<open>
  The variant that manages the cluster through \<^verbatim>\<open>kubectl\<close> and uses the proxy only to
  run commands in a sandbox. Of its handlers, those that create, delete and execute are
  modelled here.
\<close>

definition loadConfig_kubectl :: "env \<Rightarrow> js" where
  "loadConfig_kubectl e =
     (case configFile e of
        Parsed config \<Rightarrow> config
      | _ \<Rightarrow> JObj [(''username'', JStr ''default''), (''namespace'', JStr ''default''),
                   (''defaultImage'', JStr ''sandbox-runtime:latest''),
                   (''defaultPort'', JNum 8888)])"

text \<open>
  \<^verbatim>\<open>stdout.trim()\<close>. Of the white space and line terminators that \<^verbatim>\<open>trim\<close> removes, the
  ones below 256 are the tab, the line feed, the vertical tab, the form feed, the carriage
  return, the space and the no-break space; the others (\<^verbatim>\<open>U+1680\<close>, \<^verbatim>\<open>U+2000\<close> to
  \<^verbatim>\<open>U+200A\<close>, \<^verbatim>\<open>U+2028\<close>, \<^verbatim>\<open>U+2029\<close>, \<^verbatim>\<open>U+202F\<close>, \<^verbatim>\<open>U+205F\<close>, \<^verbatim>\<open>U+3000\<close>, \<^verbatim>\<open>U+FEFF\<close>) are
  not characters of a \<open>string\<close> here.
\<close>

definition is_space :: "char \<Rightarrow> bool" where
  "is_space c =
     (c \<in> set [CHR 0x09, CHR 0x0A, CHR 0x0B, CHR 0x0C, CHR 0x0D, CHR 0x20, CHR 0xA0])"

definition trim :: "string \<Rightarrow> string" where
  "trim s = rev (dropWhile is_space (rev (dropWhile is_space s)))"

datatype exec_outcome = ExecError string | ExecOutput string

text \<open>The command line that \<^verbatim>\<open>kubectl\<close> hands to the shell.\<close>

definition kubectl_cmd :: "string list \<Rightarrow> js \<Rightarrow> string" where
  "kubectl_cmd args config =
     (let kubeconfigFlag =
            (if truthy (opt_field config ''kubeconfig'')
             then ''--kubeconfig='' @ to_string (field config ''kubeconfig'') else []);
          namespaceFlag =
            (if truthy (opt_field config ''namespace'')
             then ''-n '' @ to_string (field config ''namespace'') else [])
      in ''kubectl '' @ kubeconfigFlag @ '' '' @ namespaceFlag @ '' '' @ join '' '' args)"

definition kubectl :: "string list \<Rightarrow> js \<Rightarrow> exec_outcome \<Rightarrow> string comp" where
  "kubectl args config out =
     (let cmd = kubectl_cmd args config in
      case out of
        ExecError m \<Rightarrow>
          (Inl (''kubectl command failed: '' @ m @ nl @ ''Command: '' @ cmd), [Exec cmd])
      | ExecOutput stdout \<Rightarrow> (Inr (trim stdout), [Exec cmd]))"

definition generateSandboxYAML :: "string \<Rightarrow> js \<Rightarrow> js \<Rightarrow> js \<Rightarrow> string" where
  \<open>generateSandboxYAML name img port username =
     ''apiVersion: agents.x-k8s.io/v1alpha1'' @ nl
     @ ''kind: Sandbox'' @ nl
     @ ''metadata:'' @ nl
     @ ''  name: '' @ name @ nl
     @ ''  labels:'' @ nl
     @ ''    user: '' @ to_string username @ nl
     @ ''spec:'' @ nl
     @ ''  podTemplate:'' @ nl
     @ ''    metadata:'' @ nl
     @ ''      labels:'' @ nl
     @ ''        sandbox: '' @ name @ nl
     @ ''        managed-by: gemini-cli'' @ nl
     @ ''    spec:'' @ nl
     @ ''      containers:'' @ nl
     @ ''      - name: sandbox-runtime'' @ nl
     @ ''        image: '' @ to_string img @ nl
     @ ''        imagePullPolicy: IfNotPresent'' @ nl
     @ ''        ports:'' @ nl
     @ ''        - containerPort: '' @ to_string port @ nl
     @ ''        env:'' @ nl
     @ ''        - name: GOOGLE_GENAI_USE_VERTEXAI'' @ nl
     @ ''          value: "true"'' @ nl
     @ ''        - name: GOOGLE_CLOUD_PROJECT'' @ nl
     @ ''          value: "agent-sandbox-476202"'' @ nl
     @ ''        - name: GOOGLE_CLOUD_LOCATION'' @ nl
     @ ''          value: "global"'' @ nl\<close>

text \<open>\<^verbatim>\<open>await fs.writeFile(..)\<close>, \<^verbatim>\<open>await fs.unlink(..)\<close>: \<open>Some m\<close> when it rejects.\<close>

definition fs_op :: "event \<Rightarrow> string option \<Rightarrow> unit comp" where
  "fs_op ev out = (case out of None \<Rightarrow> (Inr (), [ev]) | Some m \<Rightarrow> (Inl m, [ev]))"

text \<open>\<^verbatim>\<open>a || config.k\<close>: the property is read only when \<open>a\<close> is falsy.\<close>

definition or_read :: "js \<Rightarrow> js \<Rightarrow> string \<Rightarrow> string + js" where
  "or_read a config k = (if truthy a then Inr a else get_prop config k)"

text \<open>\<^verbatim>\<open>conditions.find((c) => c.type === 'Ready')\<close> on an array.\<close>

fun find_ready :: "js list \<Rightarrow> string + js" where
  "find_ready [] = Inr JUndefined"
| "find_ready (c # cs) =
     (case get_prop c ''type'' of
        Inl m \<Rightarrow> Inl m
      | Inr t \<Rightarrow> if t = JStr ''Ready'' then Inr c else find_ready cs)"

text \<open>
  \<^verbatim>\<open>status?.conditions?.find((c) => c.type === 'Ready')?.status === 'True'\<close>, given
  the value of \<^verbatim>\<open>sandboxData.status\<close>.
\<close>

definition ready_condition :: "js \<Rightarrow> string + js" where
  "ready_condition st =
     (if nullish st then Inr (JBool False)
      else if nullish (field st ''conditions'') then Inr (JBool False)
      else
        (case field st ''conditions'' of
           JArr cs \<Rightarrow>
             (case find_ready cs of
                Inl m \<Rightarrow> Inl m
              | Inr c \<Rightarrow> Inr (JBool (opt_field c ''status'' = JStr ''True'')))
         | _ \<Rightarrow> Inl ''sandboxData.status?.conditions?.find is not a function''))"

definition create_sandbox_kubectl ::
  "env \<Rightarrow> string \<Rightarrow> string option \<Rightarrow> int option \<Rightarrow> string option \<Rightarrow> exec_outcome
     \<Rightarrow> string option \<Rightarrow> exec_outcome \<Rightarrow> fetch_outcome \<Rightarrow> js \<times> event list" where
  "create_sandbox_kubectl e name img port writeOut applyOut unlinkOut getOut pushOut =
     handler (
       let config = loadConfig_kubectl e in
       bindC (liftE (or_read (opt_str img) config ''defaultImage'')) (\<lambda>i.
       bindC (liftE (or_read (opt_num port) config ''defaultPort'')) (\<lambda>p.
       bindC (liftE (get_prop config ''username'')) (\<lambda>u.
       let sandboxImage = js_or i (JStr ''sandbox-runtime:latest'');
           sandboxPort = js_or p (JNum 8888);
           username = js_or u (JStr ''default'');
           yaml = generateSandboxYAML name sandboxImage sandboxPort username;
           tmpFile = ''/tmp/sandbox-'' @ name @ ''-'' @ show_nat (now e) @ ''.yaml''
       in
       bindC (fs_op (WriteFile tmpFile yaml) writeOut) (\<lambda>_.
       bindC (kubectl [''apply'', ''-f'', tmpFile] config applyOut) (\<lambda>_.
       bindC (fs_op (Unlink tmpFile) unlinkOut) (\<lambda>_.
       bindC (emit (Sleep 30000)) (\<lambda>_.
       bindC (kubectl [''get'', ''sandbox'', name, ''-o'', ''json''] config getOut) (\<lambda>status.
       bindC (liftE (parseJSON e status)) (\<lambda>sandboxData.
       bindC (if truthy (field config ''proxyUrl'') then
                ignore_errors
                  (fetch (push_request (field config ''proxyUrl'') username name sandboxPort)
                     pushOut)
              else ret ()) (\<lambda>_.
       bindC (liftE (get_prop sandboxData ''metadata'')) (\<lambda>metadata.
       bindC (liftE (get_prop metadata ''name'')) (\<lambda>n.
       bindC (liftE (ready_condition (field sandboxData ''status''))) (\<lambda>ready.
       ret (JObj [(''success'', JBool True),
                  (''message'', JStr (''Sandbox '' @ sq @ name @ sq @ '' created successfully'')),
                  (''sandbox'', JObj [
                     (''name'', n),
                     (''namespace'', field metadata ''namespace''),
                     (''serviceFQDN'',
                        js_or (opt_field (field sandboxData ''status'') ''serviceFQDN'')
                          (JStr ''pending'')),
                     (''ready'', ready)])])))))))))))))))"

definition send_prompt_to_sandbox_kubectl ::
  "env \<Rightarrow> string \<Rightarrow> string \<Rightarrow> fetch_outcome \<Rightarrow> js \<times> event list" where
  "send_prompt_to_sandbox_kubectl e name command out =
     handler (
       let config = loadConfig_kubectl e in
       bindC (liftE (get_prop config ''proxyUrl'')) (\<lambda>proxyUrl.
       if \<not> truthy proxyUrl then throw proxyUrl_not_configured
       else
         let username = js_or (field config ''username'') (JStr ''default'');
             url = to_string proxyUrl @ ''/'' @ to_string username
                     @ ''/'' @ name @ ''/v1/shell/exec'' in
         bindC (fetch \<lparr>http_method = ''POST'', url = url, headers = [content_type_json],
                       body = JObj [(''command'', JStr command)]\<rparr> out) (\<lambda>(st, b).
         if \<not> ok st then
           bindC (json b) (\<lambda>errorData.
           throw (''Proxy returned '' @ show_nat st @ '': '' @ stringify e errorData))
         else
           bindC (json b) (\<lambda>data.
           bindC (liftE (get_prop data ''data'')) (\<lambda>d.
           let output = js_or (opt_field d ''output'') (JStr []);
               exitCode = js_coalesce (opt_field d ''exit_code'') (JNum (- 1))
           in
           ret (JObj [(''success'', field data ''success''),
                      (''sandbox'', JStr name),
                      (''command'', JStr command),
                      (''result'', JObj [
                         (''output'', output),
                         (''exit_code'', exitCode),
                         (''session_id'', opt_field d ''session_id'')])]))))))"

definition delete_sandbox_kubectl :: "env \<Rightarrow> string \<Rightarrow> exec_outcome \<Rightarrow> js \<times> event list" where
  "delete_sandbox_kubectl e name out =
     handler (
       let config = loadConfig_kubectl e in
       bindC (kubectl [''delete'', ''sandbox'', name] config out) (\<lambda>_.
       ret (JObj [(''success'', JBool True),
                  (''message'', JStr (''Sandbox '' @ sq @ name @ sq @ '' deleted successfully''))])))"

section \<open>Vocabulary of the properties\<close>

text \<open>
  A status answer on which the polling loop sets \<^verbatim>\<open>ready = true\<close>: a success response
  whose body parses and has a truthy \<^verbatim>\<open>ready\<close>.
\<close>

definition reports_ready :: "fetch_outcome \<Rightarrow> bool" where
  "reports_ready out =
     (case out of
        Rejected m \<Rightarrow> False
      | Response st b \<Rightarrow>
          ok st \<and> (case b of BodyError m \<Rightarrow> False | BodyJson d \<Rightarrow> truthy (opt_field d ''ready'')))"

text \<open>The value of \<^verbatim>\<open>sandboxData\<close> after the first \<open>n\<close> iterations of the loop.\<close>

primrec snapshot_after :: "(nat \<Rightarrow> fetch_outcome) \<Rightarrow> nat \<Rightarrow> js" where
  "snapshot_after status 0 = JObj []"
| "snapshot_after status (Suc n) = fst (attempt_apikey (snapshot_after status n) (status n))"


text \<open>The trace of \<open>k\<close> iterations: each one waits five seconds, then asks for the status.\<close>

definition polls :: "request \<Rightarrow> nat \<Rightarrow> event list" where
  "polls req k = concat (replicate k [Sleep 5000, Fetch req])"

text \<open>The backend accepts the creation: a success response whose body parses.\<close>

definition accepted :: "fetch_outcome \<Rightarrow> bool" where
  "accepted out =
     (case out of
        Rejected m \<Rightarrow> False
      | Response st b \<Rightarrow> ok st \<and> (case b of BodyError m \<Rightarrow> False | BodyJson v \<Rightarrow> True))"

text \<open>The delays of a trace, in order, and whether all of them have a given length.\<close>

fun sleeps :: "event list \<Rightarrow> nat list" where
  "sleeps [] = []"
| "sleeps (Sleep ms # es) = ms # sleeps es"
| "sleeps (ev # es) = sleeps es"

fun delays_are :: "nat \<Rightarrow> event list \<Rightarrow> bool" where
  "delays_are d [] = True"
| "delays_are d (Sleep ms # es) = (ms = d \<and> delays_are d es)"
| "delays_are d (ev # es) = delays_are d es"


text \<open>
  The round trip itself fails: the request is rejected (a thrown transport error) or the
  response is not a success.
\<close>

definition round_trip_failed :: "fetch_outcome \<Rightarrow> bool" where
  "round_trip_failed out =
     (case out of
        Rejected m \<Rightarrow> True
      | Response st b \<Rightarrow> \<not> ok st)"

text \<open>
  The round trip succeeds and yet leaves nothing to read: a success response whose body
  does not parse, or parses to \<^verbatim>\<open>null\<close>.
\<close>

definition body_unreadable :: "fetch_outcome \<Rightarrow> bool" where
  "body_unreadable out =
     (case out of
        Rejected m \<Rightarrow> False
      | Response st b \<Rightarrow>
          ok st \<and> (case b of BodyError m \<Rightarrow> True | BodyJson data \<Rightarrow> nullish data))"

text \<open>
  What \<^verbatim>\<open>send_prompt_to_sandbox\<close> answers for an outcome of its request, once the
  configuration is loaded (\<open>strf\<close> is \<^verbatim>\<open>JSON.stringify\<close>).
\<close>

definition exec_reply :: "(js \<Rightarrow> string) \<Rightarrow> string \<Rightarrow> string \<Rightarrow> fetch_outcome \<Rightarrow> js" where
  "exec_reply strf name command out =
     (case out of
        Rejected m \<Rightarrow> failure m
      | Response st b \<Rightarrow>
          (case b of
             BodyError m \<Rightarrow> failure m
           | BodyJson data \<Rightarrow>
               if \<not> ok st then failure (''Proxy returned '' @ show_nat st @ '': '' @ strf data)
               else if nullish data then failure (type_error data ''data'')
               else JObj [(''success'', field data ''success''),
                          (''sandbox'', JStr name),
                          (''command'', JStr command),
                          (''result'', JObj [
                             (''output'',
                                js_or (opt_field (field data ''data'') ''output'') (JStr [])),
                             (''exit_code'',
                                js_coalesce (opt_field (field data ''data'') ''exit_code'')
                                  (JNum (- 1))),
                             (''session_id'', opt_field (field data ''data'') ''session_id'')])]))"

subsection \<open>Concrete inputs\<close>

definition example_config :: js where
  "example_config = JObj [(''proxyUrl'', JStr ''http://proxy''), (''apiKey'', JStr ''secret'')]"

definition example_stringify :: "js \<Rightarrow> string" where
  "example_stringify v = ''{}''"

definition example_parse :: "string \<Rightarrow> string + js" where
  "example_parse s = Inr (JObj [(''metadata'', JObj [(''name'', JStr ''s1'')])])"

definition example_env :: "config_read \<Rightarrow> env" where
  "example_env file =
     \<lparr>configPath = ''/home/user/.config/gemini-remote-sandbox/config.json'',
      configFile = file, now = 1700000000000,
      stringify = example_stringify, parseJSON = example_parse\<rparr>"

definition created_ok :: fetch_outcome where
  "created_ok = Response 201 (BodyJson (JObj [(''name'', JStr ''s1'')]))"

definition status_pending :: fetch_outcome where
  "status_pending =
     Response 200 (BodyJson (JObj [(''name'', JStr ''s1''), (''ready'', JBool False)]))"

definition status_ready :: fetch_outcome where
  "status_ready =
     Response 200 (BodyJson (JObj [(''name'', JStr ''s1''), (''ready'', JBool True)]))"

definition always_pending :: "nat \<Rightarrow> fetch_outcome" where
  "always_pending i = status_pending"

definition ready_on_third :: "nat \<Rightarrow> fetch_outcome" where
  "ready_on_third i =
     (if i = 2 then status_ready
      else if i = 1 then Rejected ''fetch failed''
      else status_pending)"

definition exit_code_two :: fetch_outcome where
  "exit_code_two =
     Response 200 (BodyJson (JObj [(''success'', JBool False),
       (''data'', JObj [(''output'', JStr ''No such file''), (''exit_code'', JNum 2)])]))"

definition config_without_url :: js where
  "config_without_url = JObj [(''apiKey'', JStr ''secret'')]"

definition config_without_key :: js where
  "config_without_key = JObj [(''proxyUrl'', JStr ''http://proxy'')]"

definition push_rejected :: fetch_outcome where
  "push_rejected = Rejected ''connect ECONNREFUSED''"

definition push_forbidden :: fetch_outcome where
  "push_forbidden = Response 403 (BodyError ''Unexpected token < in JSON at position 0'')"

definition empty_body :: fetch_outcome where
  "empty_body = Response 200 (BodyJson (JObj []))"

definition injected_name :: string where
  "injected_name = ''x; rm -rf /''"

definition kube_config :: js where
  "kube_config = JObj [(''kubeconfig'', JStr ''/tmp/k; id''), (''namespace'', JStr ''a b'')]"



definition null_answer :: fetch_outcome where
  "null_answer = Response 200 (BodyJson JNull)"


definition partial_body :: fetch_outcome where
  "partial_body = Response 200 (BodyJson (JObj [(''data'', JObj [(''output'', JStr ''hi'')])]))"

definition partial_status :: fetch_outcome where
  "partial_status = Response 200 (BodyJson (JObj [(''serviceFQDN'', JStr ''s1.svc'')]))"

section \<open>Auxiliary lemmas\<close>

subsection \<open>Computations and the polling loop\<close>

lemma bindC_Inr: "bindC (Inr v, t) f = (fst (f v), t @ snd (f v))"
  by (simp add: bindC_def split: prod.split)

lemma bindC_Inl: "bindC (Inl e, t) f = (Inl e, t)"
  by (simp add: bindC_def)

lemma bindC_liftE: "bindC (liftE r) f = (case r of Inl e \<Rightarrow> (Inl e, []) | Inr v \<Rightarrow> f v)"
  by (simp add: bindC_def liftE_def split: sum.split prod.split)

lemma bindC_ret: "bindC (ret v) f = f v"
  by (simp add: bindC_def ret_def split: prod.split)

lemma bindC_throw: "bindC (throw m) f = (Inl m, [])"
  by (simp add: bindC_def throw_def)

lemma bindC_emit: "bindC (emit ev) f = (fst (f ()), ev # snd (f ()))"
  by (simp add: bindC_def emit_def split: prod.split)

lemma bindC_fetch:
  "bindC (fetch req out) f =
     (case out of Rejected m \<Rightarrow> (Inl m, [Fetch req])
      | Response st b \<Rightarrow> (fst (f (st, b)), Fetch req # snd (f (st, b))))"
  by (simp add: bindC_def fetch_def split: fetch_outcome.split prod.split)

lemma ignore_fetch: "ignore_errors (fetch req out) = (Inr (), [Fetch req])"
  by (simp add: ignore_errors_def fetch_def split: fetch_outcome.split)

lemma handler_eq: "handler m = ((case fst m of Inl e \<Rightarrow> failure e | Inr v \<Rightarrow> v), snd m)"
  by (cases m) (simp add: handler_def split: sum.split)

lemma attempt_ready: "snd (attempt_apikey sd out) = reports_ready out"
  by (simp add: attempt_apikey_def reports_ready_def get_prop_def opt_field_def
      split: fetch_outcome.split body_read.split)

lemma poll_done: "\<not> a < maxAttempts \<Longrightarrow> poll_apikey req status a sd = (sd, False, [])"
  by (simp add: poll_apikey.simps[of req status a sd])

lemma poll_ready:
  assumes "a < maxAttempts" and "reports_ready (status a)"
  shows "poll_apikey req status a sd =
           (fst (attempt_apikey sd (status a)), True, [Sleep 5000, Fetch req])"
proof -
  obtain d r where dr: "attempt_apikey sd (status a) = (d, r)"
    by (cases "attempt_apikey sd (status a)")
  with attempt_ready[of sd "status a"] assms(2) have "r" by simp
  with assms(1) dr show ?thesis
    by (simp add: poll_apikey.simps[of req status a sd])
qed

lemma poll_next:
  assumes "a < maxAttempts" and "\<not> reports_ready (status a)"
  shows "poll_apikey req status a sd =
     (case poll_apikey req status (Suc a) (fst (attempt_apikey sd (status a))) of
        (d', r', t) \<Rightarrow> (d', r', Sleep 5000 # Fetch req # t))"
proof -
  obtain d r where dr: "attempt_apikey sd (status a) = (d, r)"
    by (cases "attempt_apikey sd (status a)")
  with attempt_ready[of sd "status a"] assms(2) have "\<not> r" by simp
  with assms(1) dr show ?thesis
    by (simp add: poll_apikey.simps[of req status a sd])
qed

lemma polls_Suc: "polls req (Suc k) = Sleep 5000 # Fetch req # polls req k"
  by (simp add: polls_def)

lemma poll_shape:
  "a \<le> maxAttempts \<Longrightarrow>
   \<exists>n. a \<le> n \<and> n \<le> maxAttempts \<and>
     poll_apikey req status a (snapshot_after status a) =
       (snapshot_after status n, a < n \<and> reports_ready (status (n - 1)), polls req (n - a)) \<and>
     (\<forall>i. a \<le> i \<and> i + 1 < n \<longrightarrow> \<not> reports_ready (status i)) \<and>
     (n < maxAttempts \<longrightarrow> a < n \<and> reports_ready (status (n - 1)))"
proof (induction "maxAttempts - a" arbitrary: a)
  case 0
  then have "\<not> a < maxAttempts" by simp
  from poll_done[OF this] 0 show ?case
    by (intro exI[of _ a]) (auto simp add: polls_def)
next
  case (Suc k)
  then have lt: "a < maxAttempts" by simp
  show ?case
  proof (cases "reports_ready (status a)")
    case True
    from poll_ready[of a status req "snapshot_after status a", OF lt True] True lt show ?thesis
      by (intro exI[of _ "Suc a"]) (auto simp add: polls_def)
  next
    case False
    from Suc lt have "k = maxAttempts - Suc a" "Suc a \<le> maxAttempts" by simp_all
    from Suc.hyps(1)[OF this] obtain n where n:
      "Suc a \<le> n" "n \<le> maxAttempts"
      "poll_apikey req status (Suc a) (snapshot_after status (Suc a)) =
       (snapshot_after status n, Suc a < n \<and> reports_ready (status (n - 1)), polls req (n - Suc a))"
      "\<forall>i. Suc a \<le> i \<and> i + 1 < n \<longrightarrow> \<not> reports_ready (status i)"
      "n < maxAttempts \<longrightarrow> Suc a < n \<and> reports_ready (status (n - 1))"
      by blast
    have eq: "n - a = Suc (n - Suc a)" using n(1) by simp
    have last: "(Suc a < n \<and> reports_ready (status (n - 1))) = (a < n \<and> reports_ready (status (n - 1)))"
      using n(1) False by (cases "n = Suc a") auto
    have step: "poll_apikey req status a (snapshot_after status a) =
        (snapshot_after status n, a < n \<and> reports_ready (status (n - 1)), polls req (n - a))"
      using poll_next[of a status req "snapshot_after status a", OF lt False] n(3) last
      by (simp add: eq polls_Suc)
    have before: "\<forall>i. a \<le> i \<and> i + 1 < n \<longrightarrow> \<not> reports_ready (status i)"
    proof (intro allI impI)
      fix i assume "a \<le> i \<and> i + 1 < n"
      then show "\<not> reports_ready (status i)"
        using False n(4) by (cases "i = a") auto
    qed
    have early: "n < maxAttempts \<longrightarrow> a < n \<and> reports_ready (status (n - 1))"
      using n(5) n(1) by auto
    from n(1) n(2) step before early show ?thesis
      by (intro exI[of _ n]) auto
  qed
qed

lemma poll_from_start:
  "\<exists>n. 1 \<le> n \<and> n \<le> maxAttempts \<and>
     poll_apikey req status 0 (JObj []) =
       (snapshot_after status n, reports_ready (status (n - 1)), polls req n) \<and>
     (\<forall>i. i + 1 < n \<longrightarrow> \<not> reports_ready (status i)) \<and>
     (n < maxAttempts \<longrightarrow> reports_ready (status (n - 1)))"
proof -
  from poll_shape[of 0 req status] obtain n where n:
    "n \<le> maxAttempts"
    "poll_apikey req status 0 (snapshot_after status 0) =
       (snapshot_after status n, 0 < n \<and> reports_ready (status (n - 1)), polls req (n - 0))"
    "\<forall>i. 0 \<le> i \<and> i + 1 < n \<longrightarrow> \<not> reports_ready (status i)"
    "n < maxAttempts \<longrightarrow> 0 < n \<and> reports_ready (status (n - 1))"
    by auto
  have pos: "0 < n"
    using n(1) n(4) by (cases "n = maxAttempts") (auto simp: maxAttempts_def)
  with n show ?thesis
    by (intro exI[of _ n]) auto
qed

lemma create_apikey_accepted:
  assumes "loadConfig_apikey e = Inr config" and "accepted createOut"
  shows "create_sandbox_apikey e name img port createOut status =
    (case poll_apikey (status_request_apikey config name) status 0 (JObj []) of
       (sd, ready, t) \<Rightarrow>
         ((if nullish sd then failure (type_error sd ''name'')
           else created name sd (JStr ''pending'')),
          Fetch (create_request_apikey config name img port) # t))"
proof -
  from assms(2) obtain st cd where out: "createOut = Response st (BodyJson cd)" and ok: "ok st"
    by (auto simp: accepted_def split: fetch_outcome.splits body_read.splits)
  show ?thesis
    unfolding create_sandbox_apikey_def assms(1) out
    using ok
    by (simp add: bindC_liftE bindC_fetch bindC_Inr bindC_ret json_def handler_eq ret_def
        get_prop_def split: prod.split)
qed

lemma create_username_accepted:
  assumes "loadConfig_username e = Inr config" and "accepted createOut"
  shows "create_sandbox_username e name img port createOut statusOut pushOut =
    (let c = Fetch (create_request_username config name img port);
         s = Fetch (status_request_username config name);
         p = Fetch (push_request (field config ''proxyUrl'')
                      (js_or (field config ''username'') (JStr ''default'')) name
                      (js_or (js_or (opt_num port) (field config ''defaultPort'')) (JNum 8888)));
         namespace = js_or (field config ''namespace'') (JStr ''default'')
     in case statusOut of
          Rejected m \<Rightarrow> (failure m, [c, Sleep 30000, s])
        | Response sst sb \<Rightarrow>
            if ok sst then
              (case sb of
                 BodyError m \<Rightarrow> (failure m, [c, Sleep 30000, s])
               | BodyJson sd \<Rightarrow>
                   ((if nullish sd then failure (type_error sd ''name'')
                     else created name sd namespace), [c, Sleep 30000, s, p]))
            else (created name (JObj []) namespace, [c, Sleep 30000, s, p]))"
proof -
  from assms(2) obtain st cd where out: "createOut = Response st (BodyJson cd)" and ok: "ok st"
    by (auto simp: accepted_def split: fetch_outcome.splits body_read.splits)
  show ?thesis
    unfolding create_sandbox_username_def assms(1) out
    using ok
    by (simp add: bindC_liftE bindC_fetch bindC_Inr bindC_Inl bindC_ret bindC_emit bindC_throw
        ignore_fetch json_def handler_eq ret_def throw_def
        get_prop_def Let_def split: prod.split fetch_outcome.split body_read.split)
qed

lemma sleeps_polls: "sleeps (polls req n) = replicate n 5000"
  by (induction n) (simp_all add: polls_def)

lemma poll_cong:
  "(\<And>a sd. attempt_apikey sd (s1 a) = attempt_apikey sd (s2 a)) \<Longrightarrow>
   poll_apikey req s1 a sd = poll_apikey req s2 a sd"
proof (induction "maxAttempts - a" arbitrary: a sd)
  case 0
  then show ?case
    by (simp add: poll_apikey.simps[of req s1 a sd] poll_apikey.simps[of req s2 a sd])
next
  case (Suc k)
  then have "k = maxAttempts - (a + 1)" by simp
  from Suc.hyps(1)[OF this Suc.prems]
  have ih: "\<And>d. poll_apikey req s1 (a + 1) d = poll_apikey req s2 (a + 1) d" .
  show ?case
    unfolding poll_apikey.simps[of req s1 a sd] poll_apikey.simps[of req s2 a sd]
      Suc.prems[of sd a] ih ..
qed

lemma create_apikey_cong:
  assumes "\<And>a sd. attempt_apikey sd (s1 a) = attempt_apikey sd (s2 a)"
  shows "create_sandbox_apikey e name img port createOut s1 =
         create_sandbox_apikey e name img port createOut s2"
proof -
  have "\<And>req a sd. poll_apikey req s1 a sd = poll_apikey req s2 a sd"
    using assms by (rule poll_cong)
  then show ?thesis
    unfolding create_sandbox_apikey_def by (simp cong: if_cong)
qed


subsection \<open>The concrete configuration loads\<close>

lemma load_example_apikey: "loadConfig_apikey (example_env (Parsed example_config)) = Inr example_config"
  by (simp add: loadConfig_apikey_def example_env_def example_config_def get_prop_def)

lemma load_example_username: "loadConfig_username (example_env (Parsed example_config)) = Inr example_config"
  by (simp add: loadConfig_username_def example_env_def example_config_def get_prop_def)

subsection \<open>Non-success responses\<close>

lemmas monad_simps = bindC_liftE bindC_fetch bindC_Inr bindC_Inl bindC_ret bindC_emit bindC_throw
        ignore_fetch json_def handler_eq ret_def throw_def



lemma is_failure_failure: "is_failure (failure m)"
  by (simp add: failure_def)






subsection \<open>What execute answers\<close>

lemma load_username_proxyUrl: "loadConfig_username e = Inr c \<Longrightarrow> truthy (field c ''proxyUrl'')"
  by (auto simp: loadConfig_username_def get_prop_def split: config_read.splits if_splits)

lemma load_apikey_proxyUrl: "loadConfig_apikey e = Inr c \<Longrightarrow> truthy (field c ''proxyUrl'')"
  by (auto simp: loadConfig_apikey_def get_prop_def split: config_read.splits if_splits)

lemma send_prompt_username_reply:
  assumes "loadConfig_username e = Inr c"
  shows "fst (send_prompt_to_sandbox_username e name command out) =
           exec_reply (stringify e) name command out"
  unfolding send_prompt_to_sandbox_username_def assms exec_reply_def
  using load_username_proxyUrl[OF assms]
  by (simp add: monad_simps get_prop_def Let_def split: fetch_outcome.split body_read.split)

lemma send_prompt_apikey_reply:
  assumes "loadConfig_apikey e = Inr c"
  shows "fst (send_prompt_to_sandbox_apikey e name command out) =
           exec_reply (stringify e) name command out"
  unfolding send_prompt_to_sandbox_apikey_def assms exec_reply_def
  using load_apikey_proxyUrl[OF assms]
  by (simp add: monad_simps get_prop_def Let_def split: fetch_outcome.split body_read.split)

lemma send_prompt_kubectl_reply:
  assumes "get_prop (loadConfig_kubectl e) ''proxyUrl'' = Inr u" and "truthy u"
  shows "fst (send_prompt_to_sandbox_kubectl e name command out) =
           exec_reply (stringify e) name command out"
  unfolding send_prompt_to_sandbox_kubectl_def exec_reply_def Let_def assms(1)
  using assms(2)
  by (simp add: monad_simps get_prop_def Let_def split: fetch_outcome.split body_read.split)

lemma exit_code_present:
  assumes "field (field data ''data'') ''exit_code'' = JNum n"
  shows "\<not> nullish data" and "\<not> nullish (field data ''data'')"
  using assms by (cases data; cases "field data ''data''"; simp)+

lemma exec_reply_exit_code:
  assumes "ok st" and "field (field data ''data'') ''exit_code'' = JNum n"
  shows "field (field (exec_reply strf name command (Response st (BodyJson data))) ''result'')
           ''exit_code'' = JNum n"
    and "\<not> is_failure (exec_reply strf name command (Response st (BodyJson data)))"
  using assms exit_code_present[OF assms(2)]
  by (simp_all add: exec_reply_def opt_field_def js_coalesce_def)

lemma exec_reply_failure:
  "is_failure (exec_reply strf name command out) =
     (round_trip_failed out \<or> body_unreadable out)"
  by (simp add: exec_reply_def round_trip_failed_def body_unreadable_def is_failure_failure
      split: fetch_outcome.split body_read.split)

lemma exit_code_round_trip:
  assumes "ok st \<and> field (field data ''data'') ''exit_code'' = JNum n"
  shows "\<not> round_trip_failed (Response st (BodyJson data))"
    and "\<not> body_unreadable (Response st (BodyJson data))"
  using assms exit_code_present(1)[of data n]
  by (simp_all add: round_trip_failed_def body_unreadable_def)

subsection \<open>Configuration errors\<close>

lemma load_username_missing:
  "configFile e = Parsed config \<Longrightarrow> \<not> nullish config \<Longrightarrow> \<not> truthy (field config ''proxyUrl'') \<Longrightarrow>
   loadConfig_username e = Inl proxyUrl_required"
  by (simp add: loadConfig_username_def get_prop_def)

lemma load_apikey_missing_url:
  "configFile e = Parsed config \<Longrightarrow> \<not> nullish config \<Longrightarrow> \<not> truthy (field config ''proxyUrl'') \<Longrightarrow>
   loadConfig_apikey e = Inl proxyUrl_required"
  by (simp add: loadConfig_apikey_def get_prop_def)

lemma load_apikey_missing_key:
  "configFile e = Parsed config \<Longrightarrow> truthy (field config ''proxyUrl'') \<Longrightarrow>
   \<not> truthy (field config ''apiKey'') \<Longrightarrow>
   loadConfig_apikey e = Inl apiKey_required"
  by (cases config) (simp_all add: loadConfig_apikey_def get_prop_def)

lemma handler_config_error: "handler (bindC (liftE (Inl m)) f) = (failure m, [])"
  by (simp add: bindC_liftE handler_eq)

lemma send_prompt_kubectl_missing:
  "configFile e = Parsed config \<Longrightarrow> \<not> nullish config \<Longrightarrow> \<not> truthy (field config ''proxyUrl'') \<Longrightarrow>
   send_prompt_to_sandbox_kubectl e name command out = (failure proxyUrl_not_configured, [])"
  by (simp add: send_prompt_to_sandbox_kubectl_def loadConfig_kubectl_def get_prop_def
      bindC_liftE bindC_throw handler_eq throw_def)

lemma created_ok_accepted: "accepted created_ok"
  by (simp add: accepted_def created_ok_def ok_def)

subsection \<open>Unreadable bodies and missing fields\<close>

lemma exec_reply_unparsable:
  "exec_reply strf name command (Response st (BodyError m)) = failure m"
  by (simp add: exec_reply_def)

lemma create_username_status_body:
  assumes "loadConfig_username e = Inr c" and "accepted createOut" and "ok sst"
    and "\<not> nullish sd"
  shows "fst (create_sandbox_username e name img port createOut
                (Response sst (BodyJson sd)) pushOut) =
         created name sd (js_or (field c ''namespace'') (JStr ''default''))"
  unfolding create_username_accepted[OF assms(1,2)]
  using assms(3,4) by (simp add: Let_def)

lemma create_username_unparsable:
  assumes "loadConfig_username e = Inr c" and "ok st"
  shows "fst (create_sandbox_username e name img port (Response st (BodyError m))
                statusOut pushOut) = failure m"
  unfolding create_sandbox_username_def assms(1)
  using assms(2) by (simp add: monad_simps Let_def)

subsection \<open>The first request of create\<close>

lemma create_username_first:
  assumes "loadConfig_username e = Inr c"
  shows "take 1 (snd (create_sandbox_username e name img port createOut statusOut pushOut)) =
           [Fetch (create_request_username c name img port)]"
  unfolding create_sandbox_username_def assms
  by (simp add: monad_simps Let_def split: fetch_outcome.split)

lemma create_apikey_first:
  assumes "loadConfig_apikey e = Inr c"
  shows "take 1 (snd (create_sandbox_apikey e name img port createOut status)) =
           [Fetch (create_request_apikey c name img port)]"
  unfolding create_sandbox_apikey_def assms
  by (simp add: monad_simps Let_def split: fetch_outcome.split)

subsection \<open>Command lines\<close>

lemma kubectl_trace: "snd (kubectl args config out) = [Exec (kubectl_cmd args config)]"
  by (simp add: kubectl_def Let_def split: exec_outcome.split)

lemma delete_kubectl_trace:
  "snd (delete_sandbox_kubectl e name out) =
     [Exec (kubectl_cmd [''delete'', ''sandbox'', name] (loadConfig_kubectl e))]"
  by (simp add: delete_sandbox_kubectl_def kubectl_def Let_def bindC_def ret_def handler_eq
      split: exec_outcome.split)

lemma kubectl_cmd_delete:
  "kubectl_cmd [''delete'', ''sandbox'', name] config =
     kubectl_cmd [] config @ ''delete sandbox '' @ name"
  by (simp add: kubectl_cmd_def Let_def)

lemma kubectl_cmd_flags:
  assumes "field config ''kubeconfig'' = JStr kc" and "kc \<noteq> []"
    and "field config ''namespace'' = JStr ns" and "ns \<noteq> []"
  shows "kubectl_cmd [] config = ''kubectl --kubeconfig='' @ kc @ '' -n '' @ ns @ '' ''"
proof -
  from assms(1) have "\<not> nullish config" by (cases config) simp_all
  with assms show ?thesis
    by (simp add: kubectl_cmd_def Let_def opt_field_def)
qed

lemma delete_injected:
  "snd (delete_sandbox_kubectl (example_env ENOENT) injected_name (ExecOutput [])) =
     [Exec ''kubectl  -n default delete sandbox x; rm -rf /'']"
  by (simp add: delete_kubectl_trace kubectl_cmd_def loadConfig_kubectl_def example_env_def
      opt_field_def injected_name_def Let_def)

subsection \<open>Delays\<close>

lemma sleeps_append: "sleeps (a @ b) = sleeps a @ sleeps b"
  by (induction a rule: sleeps.induct) simp_all

lemma sleeps_bindC:
  "sleeps (snd (bindC m f)) =
     sleeps (snd m) @ (case fst m of Inl x \<Rightarrow> [] | Inr v \<Rightarrow> sleeps (snd (f v)))"
  by (cases m) (simp add: bindC_def sleeps_append split: sum.split prod.split)

lemma snd_handler: "snd (handler m) = snd m"
  by (simp add: handler_eq)

lemma sleeps_simple:
  "sleeps (snd (liftE r)) = []"
  "sleeps (snd (ret v)) = []"
  "sleeps (snd (throw msg)) = []"
  "sleeps (snd (fetch req out)) = []"
  "sleeps (snd (json b)) = []"
  "sleeps (snd (backend_error what b)) = []"
  "sleeps (snd (fs_op (WriteFile f c) w)) = []"
  "sleeps (snd (fs_op (Unlink f) w)) = []"
  "sleeps (snd (kubectl args config xo)) = []"
  "sleeps (snd (ignore_errors (fetch req out))) = []"
  "sleeps (snd (emit (Sleep n))) = [n]"
  by (simp_all add: liftE_def ret_def throw_def fetch_def json_def backend_error_def bindC_def
      fs_op_def kubectl_def ignore_errors_def emit_def Let_def
      split: fetch_outcome.split body_read.split sum.split option.split exec_outcome.split)

lemma kubectl_sleeps:
  "sum_list (sleeps (snd (create_sandbox_kubectl e name img port writeOut applyOut unlinkOut
      getOut pushOut))) \<le> 30000"
  unfolding create_sandbox_kubectl_def snd_handler Let_def
  by (simp add: sleeps_bindC sleeps_simple split: sum.split)

lemma username_sleeps:
  "sum_list (sleeps (snd (create_sandbox_username e name img port createOut statusOut pushOut)))
     \<le> 30000"
  unfolding create_sandbox_username_def snd_handler Let_def
  by (simp add: sleeps_bindC sleeps_simple split: sum.split prod.split)

lemma poll0_sleeps:
  assumes "poll_apikey req status 0 (JObj []) = (sd, r, t)"
  shows "sum_list (sleeps t) \<le> maxAttempts * 5000"
proof -
  from poll_from_start[of req status] assms obtain n where
    "n \<le> maxAttempts" and "t = polls req n" by auto
  then show ?thesis by (simp add: sleeps_polls sum_list_replicate)
qed

lemma apikey_sleeps:
  "sum_list (sleeps (snd (create_sandbox_apikey e name img port createOut status)))
     \<le> maxAttempts * 5000"
  unfolding create_sandbox_apikey_def snd_handler Let_def
  by (auto simp add: sleeps_bindC sleeps_simple sleeps_append dest: poll0_sleeps
      split: sum.split prod.split)

lemma apikey_trace:
  assumes "loadConfig_apikey e = Inr c" and "accepted createOut"
  shows "\<exists>n. 1 \<le> n \<and> n \<le> maxAttempts \<and>
           snd (create_sandbox_apikey e name img port createOut status) =
             Fetch (create_request_apikey c name img port)
               # polls (status_request_apikey c name) n"
proof -
  from poll_from_start[of "status_request_apikey c name" status] obtain n where
    "1 \<le> n" "n \<le> maxAttempts"
    "poll_apikey (status_request_apikey c name) status 0 (JObj []) =
       (snapshot_after status n, reports_ready (status (n - 1)),
        polls (status_request_apikey c name) n)"
    by blast
  then show ?thesis
    by (intro exI[of _ n]) (simp add: create_apikey_accepted[OF assms])
qed

lemma username_trace:
  assumes "loadConfig_username e = Inr c" and "accepted createOut"
  shows "take 3 (snd (create_sandbox_username e name img port createOut statusOut pushOut)) =
           [Fetch (create_request_username c name img port), Sleep 30000,
            Fetch (status_request_username c name)]"
    and "sleeps (snd (create_sandbox_username e name img port createOut statusOut pushOut)) =
           [30000]"
  unfolding create_username_accepted[OF assms]
  by (simp_all add: Let_def split: fetch_outcome.split body_read.split)

subsection \<open>The loop goes on\<close>

lemma polls_add: "polls req (a + b) = polls req a @ polls req b"
  by (simp add: polls_def replicate_add)

lemma poll_continues:
  assumes "\<not> reports_ready (status i)" and "i + 1 < maxAttempts"
    and "\<forall>j<i. \<not> reports_ready (status j)"
  shows "\<exists>t. snd (snd (poll_apikey req status 0 (JObj []))) = polls req (i + 2) @ t"
proof -
  from poll_from_start[of req status] obtain n where n:
    "1 \<le> n" "n \<le> maxAttempts"
    "poll_apikey req status 0 (JObj []) =
       (snapshot_after status n, reports_ready (status (n - 1)), polls req n)"
    "n < maxAttempts \<longrightarrow> reports_ready (status (n - 1))"
    by blast
  have "i + 2 \<le> n"
  proof (rule ccontr)
    assume "\<not> i + 2 \<le> n"
    with n(1) have le: "n - 1 \<le> i" and lt: "n < maxAttempts" using assms(2) by simp_all
    from lt n(4) have "reports_ready (status (n - 1))" by simp
    with le assms(1,3) show False by (cases "n - 1 = i") auto
  qed
  then have "n = (i + 2) + (n - (i + 2))" by simp
  then have "polls req n = polls req (i + 2) @ polls req (n - (i + 2))"
    by (metis polls_add)
  with n(3) show ?thesis by simp
qed

lemma poll_ready_on_third:
  "poll_apikey req ready_on_third 0 (JObj []) =
     (JObj [(''name'', JStr ''s1''), (''ready'', JBool True)], True, polls req 3)"
proof -
  have r0: "\<not> reports_ready (ready_on_third 0)" and r1: "\<not> reports_ready (ready_on_third 1)"
    and r2: "reports_ready (ready_on_third 2)"
    by (simp_all add: reports_ready_def ready_on_third_def status_pending_def status_ready_def
        ok_def opt_field_def)
  have lt: "0 < maxAttempts" "1 < maxAttempts" "2 < maxAttempts" by (simp_all add: maxAttempts_def)
  have p2: "\<And>sd. poll_apikey req ready_on_third 2 sd =
      (JObj [(''name'', JStr ''s1''), (''ready'', JBool True)], True, [Sleep 5000, Fetch req])"
    using poll_ready[of 2 ready_on_third req, OF lt(3) r2]
    by (simp add: attempt_apikey_def ready_on_third_def status_ready_def ok_def get_prop_def)
  have p1: "\<And>sd. poll_apikey req ready_on_third 1 sd =
      (JObj [(''name'', JStr ''s1''), (''ready'', JBool True)], True,
       [Sleep 5000, Fetch req, Sleep 5000, Fetch req])"
    using poll_next[of 1 ready_on_third req, OF lt(2) r1] p2
    by (simp add: numeral_2_eq_2)
  show ?thesis
    using poll_next[of 0 ready_on_third req "JObj []", OF lt(1) r0] p1
    by (simp add: polls_def numeral_3_eq_3)
qed

subsection \<open>The exhausted poll\<close>









subsection \<open>Field by field defaults\<close>

lemma field_opt_field: "opt_field d k = field d k"
  by (cases d) (simp_all add: opt_field_def)

lemma exec_reply_body:
  assumes "ok st"
  shows "exec_reply strf name command (Response st (BodyJson data)) =
     (if nullish data
      then failure (''Cannot read properties of ''
                      @ (if data = JNull then ''null'' else ''undefined'')
                      @ '' (reading '' @ sq @ ''data'' @ sq @ '')'')
      else JObj [(''success'', field data ''success''),
                 (''sandbox'', JStr name),
                 (''command'', JStr command),
                 (''result'', JObj [
                    (''output'', if truthy (field (field data ''data'') ''output'')
                                 then field (field data ''data'') ''output'' else JStr []),
                    (''exit_code'', if nullish (field (field data ''data'') ''exit_code'')
                                    then JNum (- 1)
                                    else field (field data ''data'') ''exit_code''),
                    (''session_id'', field (field data ''data'') ''session_id'')])])"
  using assms
  by (simp add: exec_reply_def field_opt_field js_or_def js_coalesce_def type_error_def)

lemma create_username_status:
  assumes "loadConfig_username e = Inr c" and "accepted createOut"
  shows "fst (create_sandbox_username e name img port createOut statusOut pushOut) =
     (case statusOut of
        Rejected m \<Rightarrow> failure m
      | Response sst sb \<Rightarrow>
          if ok sst then
            (case sb of
               BodyError m \<Rightarrow> failure m
             | BodyJson sd \<Rightarrow>
                 if nullish sd
                 then failure (''Cannot read properties of ''
                                 @ (if sd = JNull then ''null'' else ''undefined'')
                                 @ '' (reading '' @ sq @ ''name'' @ sq @ '')'')
                 else JObj [(''success'', JBool True),
                   (''message'', JStr (''Sandbox '' @ sq @ name @ sq @ '' created successfully'')),
                   (''sandbox'', JObj [
                      (''name'', if truthy (field sd ''name'') then field sd ''name''
                                 else JStr name),
                      (''namespace'', if truthy (field sd ''namespace'')
                                      then field sd ''namespace''
                                      else js_or (field c ''namespace'') (JStr ''default'')),
                      (''serviceFQDN'', if truthy (field sd ''serviceFQDN'')
                                        then field sd ''serviceFQDN'' else JStr ''pending''),
                      (''ready'', if truthy (field sd ''ready'') then field sd ''ready''
                                  else JBool False)])])
          else JObj [(''success'', JBool True),
                 (''message'', JStr (''Sandbox '' @ sq @ name @ sq @ '' created successfully'')),
                 (''sandbox'', JObj [
                    (''name'', JStr name),
                    (''namespace'', js_or (field c ''namespace'') (JStr ''default'')),
                    (''serviceFQDN'', JStr ''pending''),
                    (''ready'', JBool False)])])"
  unfolding create_username_accepted[OF assms]
  by (simp add: Let_def created_def js_or_def type_error_def
      split: fetch_outcome.split body_read.split)

section \<open>Properties\<close>

subsection \<open>C1: the wait for readiness is bounded\<close>

text \<open>
  C1, as the code has it. Once the backend has accepted the creation:
  the API-key client makes \<open>n\<close> status attempts with \<open>1 \<le> n \<le> 12\<close>, each one right
  after a delay of 5000 ms, and nothing else; the client addressed by user name waits
  30000 ms once and then makes its one status attempt. Whatever the outcome of any request
  (also when the creation is refused or an attempt fails), the delays of a create add up
  to at most 12 * 5000 = 60000 ms in the API-key client and to at most 30000 ms in the
  other two clients. Only timer delays are counted: no request has a timeout of its own.
  The counterexample is an accepted create of \<^verbatim>\<open>remote-sandbox.ts\<close>: its trace has a delay
  that is not 5000 ms.
\<close>

theorem readiness_wait_is_bounded:
  "(loadConfig_apikey e = Inr c2 \<and> accepted createOut \<longrightarrow>
      (\<exists>n. 1 \<le> n \<and> n \<le> maxAttempts \<and>
           snd (create_sandbox_apikey e name img port createOut status) =
             Fetch (create_request_apikey c2 name img port)
               # polls (status_request_apikey c2 name) n))
   \<and> (loadConfig_username e = Inr c1 \<and> accepted createOut \<longrightarrow>
      take 3 (snd (create_sandbox_username e name img port createOut statusOut pushOut)) =
           [Fetch (create_request_username c1 name img port), Sleep 30000,
            Fetch (status_request_username c1 name)]
      \<and> sleeps (snd (create_sandbox_username e name img port createOut statusOut pushOut)) =
           [30000])
   \<and> sum_list (sleeps (snd (create_sandbox_apikey e name img port createOut status)))
        \<le> maxAttempts * 5000
   \<and> sum_list (sleeps (snd (create_sandbox_username e name img port createOut statusOut
        pushOut))) \<le> 30000
   \<and> sum_list (sleeps (snd (create_sandbox_kubectl e name img port writeOut applyOut unlinkOut
        getOut pushOut))) \<le> 30000
   \<and> maxAttempts * 5000 = 60000"
proof (intro conjI impI)
  assume "loadConfig_apikey e = Inr c2 \<and> accepted createOut"
  then show "\<exists>n. 1 \<le> n \<and> n \<le> maxAttempts \<and>
           snd (create_sandbox_apikey e name img port createOut status) =
             Fetch (create_request_apikey c2 name img port)
               # polls (status_request_apikey c2 name) n"
    by (intro apikey_trace) simp_all
next
  assume a: "loadConfig_username e = Inr c1 \<and> accepted createOut"
  from a show "take 3 (snd (create_sandbox_username e name img port createOut statusOut pushOut)) =
           [Fetch (create_request_username c1 name img port), Sleep 30000,
            Fetch (status_request_username c1 name)]"
    by (intro username_trace(1)) simp_all
  from a show "sleeps (snd (create_sandbox_username e name img port createOut statusOut pushOut)) =
           [30000]"
    by (intro username_trace(2)) simp_all
next
  show "maxAttempts * 5000 = 60000" by (simp add: maxAttempts_def)
qed (rule apikey_sleeps username_sleeps kubectl_sleeps)+

theorem readiness_wait_is_bounded_witness:
  "take 3 (snd (create_sandbox_username (example_env (Parsed example_config)) ''s1'' None None
                  created_ok status_ready status_ready)) =
     [Fetch (create_request_username example_config ''s1'' None None), Sleep 30000,
      Fetch (status_request_username example_config ''s1'')]
   \<and> sleeps (snd (create_sandbox_username (example_env (Parsed example_config)) ''s1'' None None
                  created_ok status_ready status_ready)) = [30000]"
proof -
  have a: "loadConfig_username (example_env (Parsed example_config)) = Inr example_config
           \<and> accepted created_ok"
    by (simp add: load_example_username created_ok_accepted)
  note t = readiness_wait_is_bounded[where e = "example_env (Parsed example_config)"
      and ?c1.0 = example_config and createOut = created_ok and name = "''s1''"
      and img = None and port = None and statusOut = status_ready and pushOut = status_ready]
  from t[THEN conjunct2, THEN conjunct1, THEN mp, OF a] show ?thesis .
qed

theorem five_second_delay_counterexample:
  "\<not> delays_are 5000 (snd (create_sandbox_username (example_env (Parsed example_config)) ''s1''
        None None created_ok status_ready status_ready))"
  unfolding create_username_accepted[OF load_example_username created_ok_accepted]
  by (simp add: status_ready_def ok_def Let_def)

subsection \<open>C2: errors on a status attempt do not end the polling loop\<close>

text \<open>
  C2. While the readiness poll of create runs (the API-key client), a transport error on
  one status attempt does not end it. First conjunct: an attempt whose request is rejected
  counts exactly as an attempt answered with a non-success response, whatever the error
  says: create returns the same result and leaves the same trace, so the error is never
  surfaced. Second conjunct: after a rejected attempt that is not the twelfth, and before
  which no attempt reported ready, the loop goes on to the next attempt. Third conjunct:
  the loop makes \<open>n\<close> attempts with \<open>1 \<le> n \<le> 12\<close>; none before the last reports ready;
  and it stops before the twelfth attempt only when its last attempt reports ready.
\<close>

theorem poll_tolerates_errors:
  "(\<not> ok st \<longrightarrow>
      create_sandbox_apikey e name img port createOut (status(i := Rejected m)) =
      create_sandbox_apikey e name img port createOut (status(i := Response st b)))
   \<and> (status i = Rejected m \<and> i + 1 < maxAttempts
        \<and> (\<forall>j<i. \<not> reports_ready (status j)) \<longrightarrow>
       (\<exists>t. snd (snd (poll_apikey req status 0 (JObj []))) = polls req (i + 2) @ t))
   \<and> (\<exists>n. 1 \<le> n \<and> n \<le> maxAttempts \<and>
         poll_apikey req status 0 (JObj []) =
           (snapshot_after status n, reports_ready (status (n - 1)), polls req n) \<and>
         (\<forall>i. i + 1 < n \<longrightarrow> \<not> reports_ready (status i)) \<and>
         (n < maxAttempts \<longrightarrow> reports_ready (status (n - 1))))"
proof (intro conjI impI)
  assume "\<not> ok st"
  then show "create_sandbox_apikey e name img port createOut (status(i := Rejected m)) =
      create_sandbox_apikey e name img port createOut (status(i := Response st b))"
    by (intro create_apikey_cong) (simp add: attempt_apikey_def)
next
  assume a: "status i = Rejected m \<and> i + 1 < maxAttempts
        \<and> (\<forall>j<i. \<not> reports_ready (status j))"
  then have "\<not> reports_ready (status i)" by (simp add: reports_ready_def)
  with a show "\<exists>t. snd (snd (poll_apikey req status 0 (JObj []))) = polls req (i + 2) @ t"
    by (intro poll_continues) simp_all
next
  show "\<exists>n. 1 \<le> n \<and> n \<le> maxAttempts \<and>
         poll_apikey req status 0 (JObj []) =
           (snapshot_after status n, reports_ready (status (n - 1)), polls req n) \<and>
         (\<forall>i. i + 1 < n \<longrightarrow> \<not> reports_ready (status i)) \<and>
         (n < maxAttempts \<longrightarrow> reports_ready (status (n - 1)))"
    by (rule poll_from_start)
qed

theorem poll_tolerates_errors_witness:
  "create_sandbox_apikey (example_env (Parsed example_config)) ''s1'' None None created_ok
     (ready_on_third(1 := Rejected ''fetch failed'')) =
   create_sandbox_apikey (example_env (Parsed example_config)) ''s1'' None None created_ok
     (ready_on_third(1 := Response 503 (BodyError ''Unexpected token'')))
   \<and> create_sandbox_apikey (example_env (Parsed example_config)) ''s1'' None None created_ok
       ready_on_third =
     (created ''s1'' (JObj [(''name'', JStr ''s1''), (''ready'', JBool True)]) (JStr ''pending''),
      Fetch (create_request_apikey example_config ''s1'' None None)
        # polls (status_request_apikey example_config ''s1'') 3)"
proof -
  have a: "\<not> ok 503" by (simp add: ok_def)
  note t = poll_tolerates_errors[where st = 503 and e = "example_env (Parsed example_config)"
      and name = "''s1''" and img = None and port = None and createOut = created_ok
      and status = ready_on_third and i = 1 and m = "''fetch failed''"
      and b = "BodyError ''Unexpected token''"]
  note first = t[THEN conjunct1, THEN mp, OF a]
  have second: "create_sandbox_apikey (example_env (Parsed example_config)) ''s1'' None None
       created_ok ready_on_third =
     (created ''s1'' (JObj [(''name'', JStr ''s1''), (''ready'', JBool True)]) (JStr ''pending''),
      Fetch (create_request_apikey example_config ''s1'' None None)
        # polls (status_request_apikey example_config ''s1'') 3)"
    unfolding create_apikey_accepted[OF load_example_apikey created_ok_accepted]
      poll_ready_on_third
    by simp
  from first second show ?thesis by (intro conjI)
qed

subsection \<open>C3: an exhausted poll is reported as a success, unless the last body is null\<close>




subsection \<open>C4: a 404 is reported as "not found"\<close>



subsection \<open>C5: a non-zero exit code is data\<close>

text \<open>
  C5, as the code has it. In every client, once the configuration is loaded: when the
  proxy answers an execute request with a success response whose body reports an exit code
  \<open>n\<close> (\<^verbatim>\<open>data.data.exit_code\<close>), zero or not, the result carries it in
  \<^verbatim>\<open>result.exit_code\<close> and is not the failure object. The failure object is returned
  exactly when the round trip failed (the request was rejected, or the response was not a
  success) or the body of a success response could not be read (it did not parse, or was
  \<^verbatim>\<open>null\<close>). So a failed round trip is not the only source of the failure object: the
  counterexample is a success response with the body \<^verbatim>\<open>null\<close>, on which reading
  \<^verbatim>\<open>data.data\<close> throws.
\<close>

theorem exit_code_is_data:
  "(loadConfig_username e = Inr c1 \<longrightarrow>
      (ok st \<and> field (field data ''data'') ''exit_code'' = JNum n \<longrightarrow>
         field (field (fst (send_prompt_to_sandbox_username e name command
                              (Response st (BodyJson data)))) ''result'') ''exit_code'' = JNum n
         \<and> \<not> is_failure (fst (send_prompt_to_sandbox_username e name command
                                  (Response st (BodyJson data)))))
      \<and> is_failure (fst (send_prompt_to_sandbox_username e name command out))
            = (round_trip_failed out \<or> body_unreadable out))
   \<and> (loadConfig_apikey e = Inr c2 \<longrightarrow>
      (ok st \<and> field (field data ''data'') ''exit_code'' = JNum n \<longrightarrow>
         field (field (fst (send_prompt_to_sandbox_apikey e name command
                              (Response st (BodyJson data)))) ''result'') ''exit_code'' = JNum n
         \<and> \<not> is_failure (fst (send_prompt_to_sandbox_apikey e name command
                                  (Response st (BodyJson data)))))
      \<and> is_failure (fst (send_prompt_to_sandbox_apikey e name command out))
            = (round_trip_failed out \<or> body_unreadable out))
   \<and> (get_prop (loadConfig_kubectl e) ''proxyUrl'' = Inr u \<and> truthy u \<longrightarrow>
      (ok st \<and> field (field data ''data'') ''exit_code'' = JNum n \<longrightarrow>
         field (field (fst (send_prompt_to_sandbox_kubectl e name command
                              (Response st (BodyJson data)))) ''result'') ''exit_code'' = JNum n
         \<and> \<not> is_failure (fst (send_prompt_to_sandbox_kubectl e name command
                                  (Response st (BodyJson data)))))
      \<and> is_failure (fst (send_prompt_to_sandbox_kubectl e name command out))
            = (round_trip_failed out \<or> body_unreadable out))"
  by (intro conjI impI;
      simp only: send_prompt_username_reply send_prompt_apikey_reply send_prompt_kubectl_reply
        exec_reply_exit_code exec_reply_failure exit_code_round_trip simp_thms)

theorem exit_code_is_data_witness:
  "field (field (fst (send_prompt_to_sandbox_username (example_env (Parsed example_config))
      ''s1'' ''ls /nope'' exit_code_two)) ''result'') ''exit_code'' = JNum 2
   \<and> \<not> is_failure (fst (send_prompt_to_sandbox_username (example_env (Parsed example_config))
      ''s1'' ''ls /nope'' exit_code_two))"
proof -
  have ok: "ok 200 \<and>
    field (field (JObj [(''success'', JBool False),
       (''data'', JObj [(''output'', JStr ''No such file''), (''exit_code'', JNum 2)])]) ''data'')
      ''exit_code'' = JNum 2"
    by (simp add: ok_def)
  note t = exit_code_is_data[of "example_env (Parsed example_config)" example_config 200
      "JObj [(''success'', JBool False),
       (''data'', JObj [(''output'', JStr ''No such file''), (''exit_code'', JNum 2)])]" 2
      "''s1''" "''ls /nope''"]
  from t[THEN conjunct1, THEN mp, OF load_example_username, THEN conjunct1, THEN mp, OF ok]
  show ?thesis unfolding exit_code_two_def .
qed

theorem only_round_trip_counterexample:
  "\<not> round_trip_failed null_answer
   \<and> is_failure (fst (send_prompt_to_sandbox_username (example_env (Parsed example_config))
         ''s1'' ''ls'' null_answer))
   \<and> fst (send_prompt_to_sandbox_username (example_env (Parsed example_config))
         ''s1'' ''ls'' null_answer) = failure (type_error JNull ''data'')"
  by (simp add: send_prompt_username_reply[OF load_example_username] exec_reply_def
      null_answer_def ok_def round_trip_failed_def is_failure_failure)

subsection \<open>C6: a missing required setting fails before any request\<close>

text \<open>
  C6, as the code has it. In the two proxy clients, when the configuration file is read and
  \<^verbatim>\<open>proxyUrl\<close> is missing from it (or empty), every operation returns the failure object
  whose message begins with the name of the field, \<^verbatim>\<open>proxyUrl is required ...\<close>; when
  \<^verbatim>\<open>proxyUrl\<close> is there and \<^verbatim>\<open>apiKey\<close> is missing, every operation of the API-key client
  returns \<^verbatim>\<open>apiKey is required ...\<close>. In the kubectl client no setting is checked when the
  configuration is loaded; only execute needs \<^verbatim>\<open>proxyUrl\<close> and returns
  \<^verbatim>\<open>proxyUrl not configured ...\<close> without it. In each of these cases the trace is empty:
  no request was sent, no process was started, no timer was set. The other operations of
  the kubectl client do not look at \<^verbatim>\<open>proxyUrl\<close>: a delete whose command succeeds has run
  kubectl and reports success, whatever the configuration holds.
  The counterexample is such a delete under a configuration without \<^verbatim>\<open>proxyUrl\<close>.
\<close>

theorem missing_config_fails_first:
  "(configFile e = Parsed config \<and> \<not> nullish config \<and> \<not> truthy (field config ''proxyUrl'') \<longrightarrow>
      create_sandbox_username e name img port createOut statusOut pushOut = (failure proxyUrl_required, [])
    \<and> get_sandbox_status_username e name out = (failure proxyUrl_required, [])
    \<and> send_prompt_to_sandbox_username e name command out = (failure proxyUrl_required, [])
    \<and> list_sandboxes_username e out = (failure proxyUrl_required, [])
    \<and> delete_sandbox_username e name out = (failure proxyUrl_required, [])
    \<and> pause_sandbox_username e name out = (failure proxyUrl_required, [])
    \<and> resume_sandbox_username e name out = (failure proxyUrl_required, [])
    \<and> create_sandbox_apikey e name img port createOut status = (failure proxyUrl_required, [])
    \<and> get_sandbox_status_apikey e name out = (failure proxyUrl_required, [])
    \<and> send_prompt_to_sandbox_apikey e name command out = (failure proxyUrl_required, [])
    \<and> list_sandboxes_apikey e out = (failure proxyUrl_required, [])
    \<and> delete_sandbox_apikey e name out = (failure proxyUrl_required, [])
    \<and> pause_sandbox_apikey e name out = (failure proxyUrl_required, [])
    \<and> resume_sandbox_apikey e name out = (failure proxyUrl_required, [])
    \<and> send_prompt_to_sandbox_kubectl e name command out = (failure proxyUrl_not_configured, []))
   \<and> (configFile e = Parsed config \<and> truthy (field config ''proxyUrl'')
        \<and> \<not> truthy (field config ''apiKey'') \<longrightarrow>
      create_sandbox_apikey e name img port createOut status = (failure apiKey_required, [])
    \<and> get_sandbox_status_apikey e name out = (failure apiKey_required, [])
    \<and> send_prompt_to_sandbox_apikey e name command out = (failure apiKey_required, [])
    \<and> list_sandboxes_apikey e out = (failure apiKey_required, [])
    \<and> delete_sandbox_apikey e name out = (failure apiKey_required, [])
    \<and> pause_sandbox_apikey e name out = (failure apiKey_required, [])
    \<and> resume_sandbox_apikey e name out = (failure apiKey_required, []))
   \<and> take 8 proxyUrl_required = ''proxyUrl''
   \<and> take 8 proxyUrl_not_configured = ''proxyUrl''
   \<and> take 6 apiKey_required = ''apiKey''
   \<and> delete_sandbox_kubectl e name (ExecOutput stdout) =
       (JObj [(''success'', JBool True),
              (''message'', JStr (''Sandbox '' @ sq @ name @ sq @ '' deleted successfully''))],
        [Exec (kubectl_cmd [''delete'', ''sandbox'', name] (loadConfig_kubectl e))])"
proof (intro conjI impI)
  assume a: "configFile e = Parsed config \<and> \<not> nullish config \<and> \<not> truthy (field config ''proxyUrl'')"
  then have u: "loadConfig_username e = Inl proxyUrl_required"
    and k: "loadConfig_apikey e = Inl proxyUrl_required"
    by (simp_all add: load_username_missing load_apikey_missing_url)
  show "send_prompt_to_sandbox_kubectl e name command out = (failure proxyUrl_not_configured, [])"
    using a by (simp add: send_prompt_kubectl_missing)
  show "create_sandbox_username e name img port createOut statusOut pushOut = (failure proxyUrl_required, [])"
    unfolding create_sandbox_username_def u by (rule handler_config_error)
  show "get_sandbox_status_username e name out = (failure proxyUrl_required, [])"
    unfolding get_sandbox_status_username_def u by (rule handler_config_error)
  show "send_prompt_to_sandbox_username e name command out = (failure proxyUrl_required, [])"
    unfolding send_prompt_to_sandbox_username_def u by (rule handler_config_error)
  show "list_sandboxes_username e out = (failure proxyUrl_required, [])"
    unfolding list_sandboxes_username_def u by (rule handler_config_error)
  show "delete_sandbox_username e name out = (failure proxyUrl_required, [])"
    unfolding delete_sandbox_username_def u by (rule handler_config_error)
  show "pause_sandbox_username e name out = (failure proxyUrl_required, [])"
    unfolding pause_sandbox_username_def u by (rule handler_config_error)
  show "resume_sandbox_username e name out = (failure proxyUrl_required, [])"
    unfolding resume_sandbox_username_def u by (rule handler_config_error)
  show "create_sandbox_apikey e name img port createOut status = (failure proxyUrl_required, [])"
    unfolding create_sandbox_apikey_def k by (rule handler_config_error)
  show "get_sandbox_status_apikey e name out = (failure proxyUrl_required, [])"
    unfolding get_sandbox_status_apikey_def k by (rule handler_config_error)
  show "send_prompt_to_sandbox_apikey e name command out = (failure proxyUrl_required, [])"
    unfolding send_prompt_to_sandbox_apikey_def k by (rule handler_config_error)
  show "list_sandboxes_apikey e out = (failure proxyUrl_required, [])"
    unfolding list_sandboxes_apikey_def k by (rule handler_config_error)
  show "delete_sandbox_apikey e name out = (failure proxyUrl_required, [])"
    unfolding delete_sandbox_apikey_def k by (rule handler_config_error)
  show "pause_sandbox_apikey e name out = (failure proxyUrl_required, [])"
    unfolding pause_sandbox_apikey_def k by (rule handler_config_error)
  show "resume_sandbox_apikey e name out = (failure proxyUrl_required, [])"
    unfolding resume_sandbox_apikey_def k by (rule handler_config_error)
next
  assume "configFile e = Parsed config \<and> truthy (field config ''proxyUrl'')
        \<and> \<not> truthy (field config ''apiKey'')"
  then have k: "loadConfig_apikey e = Inl apiKey_required"
    by (simp add: load_apikey_missing_key)
  show "create_sandbox_apikey e name img port createOut status = (failure apiKey_required, [])"
    unfolding create_sandbox_apikey_def k by (rule handler_config_error)
  show "get_sandbox_status_apikey e name out = (failure apiKey_required, [])"
    unfolding get_sandbox_status_apikey_def k by (rule handler_config_error)
  show "send_prompt_to_sandbox_apikey e name command out = (failure apiKey_required, [])"
    unfolding send_prompt_to_sandbox_apikey_def k by (rule handler_config_error)
  show "list_sandboxes_apikey e out = (failure apiKey_required, [])"
    unfolding list_sandboxes_apikey_def k by (rule handler_config_error)
  show "delete_sandbox_apikey e name out = (failure apiKey_required, [])"
    unfolding delete_sandbox_apikey_def k by (rule handler_config_error)
  show "pause_sandbox_apikey e name out = (failure apiKey_required, [])"
    unfolding pause_sandbox_apikey_def k by (rule handler_config_error)
  show "resume_sandbox_apikey e name out = (failure apiKey_required, [])"
    unfolding resume_sandbox_apikey_def k by (rule handler_config_error)
next
  show "take 8 proxyUrl_required = ''proxyUrl''" by (simp add: proxyUrl_required_def)
  show "take 8 proxyUrl_not_configured = ''proxyUrl''" by (simp add: proxyUrl_not_configured_def)
  show "take 6 apiKey_required = ''apiKey''" by (simp add: apiKey_required_def)
  show "delete_sandbox_kubectl e name (ExecOutput stdout) =
       (JObj [(''success'', JBool True),
              (''message'', JStr (''Sandbox '' @ sq @ name @ sq @ '' deleted successfully''))],
        [Exec (kubectl_cmd [''delete'', ''sandbox'', name] (loadConfig_kubectl e))])"
    by (simp add: delete_sandbox_kubectl_def kubectl_def Let_def bindC_def ret_def handler_def)
qed

theorem missing_config_fails_first_witness:
  "create_sandbox_username (example_env (Parsed config_without_url)) ''s1'' None None
      created_ok status_ready status_ready = (failure proxyUrl_required, [])
   \<and> send_prompt_to_sandbox_apikey (example_env (Parsed config_without_key)) ''s1'' ''ls''
      exit_code_two = (failure apiKey_required, [])"
proof -
  have a: "configFile (example_env (Parsed config_without_url)) = Parsed config_without_url
      \<and> \<not> nullish config_without_url \<and> \<not> truthy (field config_without_url ''proxyUrl'')"
    by (simp add: example_env_def config_without_url_def)
  have b: "configFile (example_env (Parsed config_without_key)) = Parsed config_without_key
      \<and> truthy (field config_without_key ''proxyUrl'')
      \<and> \<not> truthy (field config_without_key ''apiKey'')"
    by (simp add: example_env_def config_without_key_def)
  note t1 = missing_config_fails_first[where e = "example_env (Parsed config_without_url)"
      and config = config_without_url and name = "''s1''" and img = None and port = None
      and createOut = created_ok and statusOut = status_ready and pushOut = status_ready]
  note t2 = missing_config_fails_first[where e = "example_env (Parsed config_without_key)"
      and config = config_without_key and name = "''s1''" and command = "''ls''"
      and out = exit_code_two]
  from t1[THEN conjunct1, THEN mp, OF a, THEN conjunct1]
    t2[THEN conjunct2, THEN conjunct1, THEN mp, OF b, THEN conjunct2, THEN conjunct2, THEN conjunct1]
  show ?thesis by (intro conjI)
qed

theorem missing_proxyUrl_counterexample:
  "\<not> is_failure (fst (delete_sandbox_kubectl (example_env (Parsed config_without_url)) ''s1''
        (ExecOutput [])))
   \<and> snd (delete_sandbox_kubectl (example_env (Parsed config_without_url)) ''s1''
        (ExecOutput [])) = [Exec ''kubectl   delete sandbox s1'']"
  by (simp add: delete_sandbox_kubectl_def kubectl_def kubectl_cmd_def Let_def bindC_def ret_def
      handler_def loadConfig_kubectl_def example_env_def config_without_url_def opt_field_def)

subsection \<open>C7: the settings push after create is best effort\<close>

text \<open>
  C7. In the two clients that push the Gemini settings into a new sandbox (the one
  addressed by user name, and the kubectl one when \<^verbatim>\<open>proxyUrl\<close> is set), create returns
  the same result, and leaves the same trace, whatever happens to that request: whether
  it is answered with a success, answered with a non-success response, or rejected. The
  response is never read and a rejection is caught and dropped.
\<close>

theorem push_is_best_effort:
  "create_sandbox_username e name img port createOut statusOut pushOut =
   create_sandbox_username e name img port createOut statusOut pushOut'
   \<and> create_sandbox_kubectl e name img port writeOut applyOut unlinkOut getOut pushOut =
     create_sandbox_kubectl e name img port writeOut applyOut unlinkOut getOut pushOut'"
  unfolding create_sandbox_username_def create_sandbox_kubectl_def ignore_fetch
  by (intro conjI refl)

theorem push_is_best_effort_witness:
  "create_sandbox_username (example_env (Parsed example_config)) ''s1'' None None
      created_ok status_ready push_rejected =
   create_sandbox_username (example_env (Parsed example_config)) ''s1'' None None
      created_ok status_ready status_ready
   \<and> create_sandbox_username (example_env (Parsed example_config)) ''s1'' None None
      created_ok status_ready push_forbidden =
   create_sandbox_username (example_env (Parsed example_config)) ''s1'' None None
      created_ok status_ready status_ready
   \<and> fst (create_sandbox_username (example_env (Parsed example_config)) ''s1'' None None
      created_ok status_ready push_rejected) =
     created ''s1'' (JObj [(''name'', JStr ''s1''), (''ready'', JBool True)]) (JStr ''default'')"
proof -
  have r: "fst (create_sandbox_username (example_env (Parsed example_config)) ''s1'' None None
      created_ok status_ready push_rejected) =
     created ''s1'' (JObj [(''name'', JStr ''s1''), (''ready'', JBool True)]) (JStr ''default'')"
    unfolding create_username_accepted[OF load_example_username created_ok_accepted]
    by (simp add: status_ready_def ok_def Let_def example_config_def js_or_def)
  from push_is_best_effort[THEN conjunct1] push_is_best_effort[THEN conjunct1] r
  show ?thesis by (intro conjI)
qed

subsection \<open>C8: unreadable bodies fail, missing fields are defaulted\<close>

text \<open>
  C8, as the code has it. In the proxy clients, with the configuration loaded and a
  success response:

    \<^item> a body that does not parse makes execute return the failure object carrying the
      parse error's message, and so does create of \<^verbatim>\<open>remote-sandbox.ts\<close>, on the creation
      response and on the status response;
    \<^item> a body that is \<^verbatim>\<open>null\<close> makes them return the failure object carrying the message
      of the \<^verbatim>\<open>TypeError\<close> of the first property read (\<^verbatim>\<open>data.data\<close> in execute,
      \<^verbatim>\<open>sandboxData.name\<close> in create, on the status response);
    \<^item> every other body is not an error, and each expected field is defaulted on its own.
      Execute reports \<^verbatim>\<open>data.success\<close> as it is, \<^verbatim>\<open>data.data.output\<close> when it is truthy and
      \<^verbatim>\<open>''\<close> otherwise, \<^verbatim>\<open>data.data.exit_code\<close> when it is neither \<^verbatim>\<open>null\<close> nor
      \<^verbatim>\<open>undefined\<close> and \<^verbatim>\<open>-1\<close> otherwise, and \<^verbatim>\<open>data.data.session_id\<close> as it is. Create
      of \<^verbatim>\<open>remote-sandbox.ts\<close>, its creation accepted, reports \<^verbatim>\<open>success: true\<close> and each
      of \<^verbatim>\<open>name\<close>, \<^verbatim>\<open>namespace\<close>, \<^verbatim>\<open>serviceFQDN\<close> and \<^verbatim>\<open>ready\<close> from the status body when
      it is truthy there, and otherwise the name it was asked for, the configured
      namespace (or \<^verbatim>\<open>default\<close>), \<^verbatim>\<open>'pending'\<close> and \<^verbatim>\<open>false\<close>.

  The witness is an execute answered with \<open>{"data": {"output": "hi"}}\<close>, whose output is
  carried and whose exit code is defaulted, and a create whose status body has only a
  \<^verbatim>\<open>serviceFQDN\<close>. The counterexample is an execute answered with the body \<open>{}\<close>: the
  result is not the failure object.
\<close>

theorem missing_fields_are_defaulted:
  "(loadConfig_username e = Inr c1 \<and> ok st \<longrightarrow>
      fst (send_prompt_to_sandbox_username e name command (Response st (BodyError m)))
        = JObj [(''success'', JBool False), (''error'', JStr m)]
    \<and> fst (send_prompt_to_sandbox_username e name command (Response st (BodyJson data))) =
        (if nullish data
         then JObj [(''success'', JBool False),
                    (''error'', JStr (''Cannot read properties of ''
                        @ (if data = JNull then ''null'' else ''undefined'')
                        @ '' (reading '' @ sq @ ''data'' @ sq @ '')''))]
         else JObj [(''success'', field data ''success''),
                    (''sandbox'', JStr name),
                    (''command'', JStr command),
                    (''result'', JObj [
                       (''output'', if truthy (field (field data ''data'') ''output'')
                                    then field (field data ''data'') ''output'' else JStr []),
                       (''exit_code'', if nullish (field (field data ''data'') ''exit_code'')
                                       then JNum (- 1)
                                       else field (field data ''data'') ''exit_code''),
                       (''session_id'', field (field data ''data'') ''session_id'')])])
    \<and> fst (create_sandbox_username e name img port (Response st (BodyError m))
              statusOut pushOut)
        = JObj [(''success'', JBool False), (''error'', JStr m)]
    \<and> (accepted createOut \<longrightarrow>
         fst (create_sandbox_username e name img port createOut
                (Response st (BodyError m)) pushOut)
           = JObj [(''success'', JBool False), (''error'', JStr m)]
       \<and> fst (create_sandbox_username e name img port createOut
                (Response st (BodyJson sd)) pushOut) =
          (if nullish sd
           then JObj [(''success'', JBool False),
                      (''error'', JStr (''Cannot read properties of ''
                          @ (if sd = JNull then ''null'' else ''undefined'')
                          @ '' (reading '' @ sq @ ''name'' @ sq @ '')''))]
           else JObj [(''success'', JBool True),
                  (''message'', JStr (''Sandbox '' @ sq @ name @ sq @ '' created successfully'')),
                  (''sandbox'', JObj [
                     (''name'', if truthy (field sd ''name'') then field sd ''name''
                                else JStr name),
                     (''namespace'', if truthy (field sd ''namespace'')
                                     then field sd ''namespace''
                                     else if truthy (field c1 ''namespace'')
                                          then field c1 ''namespace'' else JStr ''default''),
                     (''serviceFQDN'', if truthy (field sd ''serviceFQDN'')
                                       then field sd ''serviceFQDN'' else JStr ''pending''),
                     (''ready'', if truthy (field sd ''ready'') then field sd ''ready''
                                 else JBool False)])])))
   \<and> (loadConfig_apikey e = Inr c2 \<and> ok st \<longrightarrow>
      fst (send_prompt_to_sandbox_apikey e name command (Response st (BodyError m)))
        = JObj [(''success'', JBool False), (''error'', JStr m)]
    \<and> fst (send_prompt_to_sandbox_apikey e name command (Response st (BodyJson data))) =
        (if nullish data
         then JObj [(''success'', JBool False),
                    (''error'', JStr (''Cannot read properties of ''
                        @ (if data = JNull then ''null'' else ''undefined'')
                        @ '' (reading '' @ sq @ ''data'' @ sq @ '')''))]
         else JObj [(''success'', field data ''success''),
                    (''sandbox'', JStr name),
                    (''command'', JStr command),
                    (''result'', JObj [
                       (''output'', if truthy (field (field data ''data'') ''output'')
                                    then field (field data ''data'') ''output'' else JStr []),
                       (''exit_code'', if nullish (field (field data ''data'') ''exit_code'')
                                       then JNum (- 1)
                                       else field (field data ''data'') ''exit_code''),
                       (''session_id'', field (field data ''data'') ''session_id'')])]))"
proof (intro conjI impI)
  assume a: "loadConfig_username e = Inr c1 \<and> ok st"
  show "fst (send_prompt_to_sandbox_username e name command (Response st (BodyError m)))
        = JObj [(''success'', JBool False), (''error'', JStr m)]"
    using a by (simp add: send_prompt_username_reply exec_reply_unparsable failure_def)
  show "fst (send_prompt_to_sandbox_username e name command (Response st (BodyJson data))) =
        (if nullish data
         then JObj [(''success'', JBool False),
                    (''error'', JStr (''Cannot read properties of ''
                        @ (if data = JNull then ''null'' else ''undefined'')
                        @ '' (reading '' @ sq @ ''data'' @ sq @ '')''))]
         else JObj [(''success'', field data ''success''),
                    (''sandbox'', JStr name),
                    (''command'', JStr command),
                    (''result'', JObj [
                       (''output'', if truthy (field (field data ''data'') ''output'')
                                    then field (field data ''data'') ''output'' else JStr []),
                       (''exit_code'', if nullish (field (field data ''data'') ''exit_code'')
                                       then JNum (- 1)
                                       else field (field data ''data'') ''exit_code''),
                       (''session_id'', field (field data ''data'') ''session_id'')])])"
    using a by (simp add: send_prompt_username_reply exec_reply_body failure_def)
  show "fst (create_sandbox_username e name img port (Response st (BodyError m))
              statusOut pushOut)
        = JObj [(''success'', JBool False), (''error'', JStr m)]"
    using a by (simp add: create_username_unparsable failure_def)
  {
    assume b: "accepted createOut"
    from a b show "fst (create_sandbox_username e name img port createOut
                (Response st (BodyError m)) pushOut)
           = JObj [(''success'', JBool False), (''error'', JStr m)]"
      by (simp add: create_username_status failure_def)
    from a b show "fst (create_sandbox_username e name img port createOut
                (Response st (BodyJson sd)) pushOut) =
          (if nullish sd
           then JObj [(''success'', JBool False),
                      (''error'', JStr (''Cannot read properties of ''
                          @ (if sd = JNull then ''null'' else ''undefined'')
                          @ '' (reading '' @ sq @ ''name'' @ sq @ '')''))]
           else JObj [(''success'', JBool True),
                  (''message'', JStr (''Sandbox '' @ sq @ name @ sq @ '' created successfully'')),
                  (''sandbox'', JObj [
                     (''name'', if truthy (field sd ''name'') then field sd ''name''
                                else JStr name),
                     (''namespace'', if truthy (field sd ''namespace'')
                                     then field sd ''namespace''
                                     else if truthy (field c1 ''namespace'')
                                          then field c1 ''namespace'' else JStr ''default''),
                     (''serviceFQDN'', if truthy (field sd ''serviceFQDN'')
                                       then field sd ''serviceFQDN'' else JStr ''pending''),
                     (''ready'', if truthy (field sd ''ready'') then field sd ''ready''
                                 else JBool False)])])"
      by (simp add: create_username_status failure_def js_or_def)
  }
next
  assume a: "loadConfig_apikey e = Inr c2 \<and> ok st"
  show "fst (send_prompt_to_sandbox_apikey e name command (Response st (BodyError m)))
        = JObj [(''success'', JBool False), (''error'', JStr m)]"
    using a by (simp add: send_prompt_apikey_reply exec_reply_unparsable failure_def)
  show "fst (send_prompt_to_sandbox_apikey e name command (Response st (BodyJson data))) =
        (if nullish data
         then JObj [(''success'', JBool False),
                    (''error'', JStr (''Cannot read properties of ''
                        @ (if data = JNull then ''null'' else ''undefined'')
                        @ '' (reading '' @ sq @ ''data'' @ sq @ '')''))]
         else JObj [(''success'', field data ''success''),
                    (''sandbox'', JStr name),
                    (''command'', JStr command),
                    (''result'', JObj [
                       (''output'', if truthy (field (field data ''data'') ''output'')
                                    then field (field data ''data'') ''output'' else JStr []),
                       (''exit_code'', if nullish (field (field data ''data'') ''exit_code'')
                                       then JNum (- 1)
                                       else field (field data ''data'') ''exit_code''),
                       (''session_id'', field (field data ''data'') ''session_id'')])])"
    using a by (simp add: send_prompt_apikey_reply exec_reply_body failure_def)
qed

theorem missing_fields_are_defaulted_witness:
  "fst (send_prompt_to_sandbox_username (example_env (Parsed example_config)) ''s1'' ''ls''
         partial_body) =
     JObj [(''success'', JUndefined),
           (''sandbox'', JStr ''s1''),
           (''command'', JStr ''ls''),
           (''result'', JObj [(''output'', JStr ''hi''), (''exit_code'', JNum (- 1)),
                              (''session_id'', JUndefined)])]
   \<and> fst (create_sandbox_username (example_env (Parsed example_config)) ''s1'' None None
            created_ok partial_status push_rejected) =
     JObj [(''success'', JBool True),
           (''message'', JStr (''Sandbox '' @ sq @ ''s1'' @ sq @ '' created successfully'')),
           (''sandbox'', JObj [(''name'', JStr ''s1''), (''namespace'', JStr ''default''),
                               (''serviceFQDN'', JStr ''s1.svc''), (''ready'', JBool False)])]"
proof -
  have a: "loadConfig_username (example_env (Parsed example_config)) = Inr example_config
           \<and> ok 200"
    by (simp add: load_example_username ok_def)
  note t = missing_fields_are_defaulted[where e = "example_env (Parsed example_config)"
      and ?c1.0 = example_config and st = 200
      and data = "JObj [(''data'', JObj [(''output'', JStr ''hi'')])]"
      and sd = "JObj [(''serviceFQDN'', JStr ''s1.svc'')]"
      and name = "''s1''" and command = "''ls''" and img = None and port = None
      and createOut = created_ok and pushOut = push_rejected]
  note u = t[THEN conjunct1, THEN mp, OF a]
  from u[THEN conjunct2, THEN conjunct1]
    u[THEN conjunct2, THEN conjunct2, THEN conjunct2, THEN mp, OF created_ok_accepted,
      THEN conjunct2]
  show ?thesis by (simp add: partial_body_def partial_status_def example_config_def)
qed

theorem missing_fields_counterexample:
  "\<not> is_failure (fst (send_prompt_to_sandbox_username (example_env (Parsed example_config))
        ''s1'' ''ls'' empty_body))"
  by (simp add: send_prompt_username_reply[OF load_example_username] exec_reply_def
      empty_body_def ok_def)

subsection \<open>C9: create does not validate the name\<close>

text \<open>
  C9, as the code has it. Create performs no check of the name (its schema is
  \<^verbatim>\<open>z.string()\<close>, which admits the empty string, and the handler adds none). In the two
  proxy clients, for every name, the empty one included, once the configuration is loaded
  the first thing create does is to send the creation request, whose body carries the
  name as given; what create returns is then decided by the answers of the backend.
  The counterexample is a create with the empty name that the backend accepts: a request
  is sent and the result is the success object.
\<close>

theorem create_sends_any_name:
  "(loadConfig_username e = Inr c1 \<longrightarrow>
      take 1 (snd (create_sandbox_username e name img port createOut statusOut pushOut)) =
        [Fetch (create_request_username c1 name img port)]
    \<and> field (body (create_request_username c1 name img port)) ''name'' = JStr name
    \<and> (accepted createOut \<and> ok sst \<and> \<not> nullish sd \<longrightarrow>
         fst (create_sandbox_username e name img port createOut
                (Response sst (BodyJson sd)) pushOut) =
           created name sd (js_or (field c1 ''namespace'') (JStr ''default''))))
   \<and> (loadConfig_apikey e = Inr c2 \<longrightarrow>
      take 1 (snd (create_sandbox_apikey e name img port createOut status)) =
        [Fetch (create_request_apikey c2 name img port)]
    \<and> field (body (create_request_apikey c2 name img port)) ''name'' = JStr name)"
proof (intro conjI impI)
  assume u: "loadConfig_username e = Inr c1"
  from u show "take 1 (snd (create_sandbox_username e name img port createOut statusOut pushOut))
      = [Fetch (create_request_username c1 name img port)]"
    by (rule create_username_first)
  show "field (body (create_request_username c1 name img port)) ''name'' = JStr name"
    by (simp add: create_request_username_def)
  {
    assume "accepted createOut \<and> ok sst \<and> \<not> nullish sd"
    with u show "fst (create_sandbox_username e name img port createOut
                (Response sst (BodyJson sd)) pushOut) =
           created name sd (js_or (field c1 ''namespace'') (JStr ''default''))"
      by (simp add: create_username_status_body)
  }
next
  assume k: "loadConfig_apikey e = Inr c2"
  from k show "take 1 (snd (create_sandbox_apikey e name img port createOut status)) =
        [Fetch (create_request_apikey c2 name img port)]"
    by (rule create_apikey_first)
  show "field (body (create_request_apikey c2 name img port)) ''name'' = JStr name"
    by (simp add: create_request_apikey_def)
qed

theorem create_sends_any_name_witness:
  "take 1 (snd (create_sandbox_username (example_env (Parsed example_config)) [] None None
                  created_ok status_ready status_ready)) =
     [Fetch (create_request_username example_config [] None None)]
   \<and> field (body (create_request_username example_config [] None None)) ''name'' = JStr []"
proof -
  note t = create_sends_any_name[where e = "example_env (Parsed example_config)"
      and ?c1.0 = example_config and name = "[]" and img = None and port = None
      and createOut = created_ok and statusOut = status_ready and pushOut = status_ready]
  note u = t[THEN conjunct1, THEN mp, OF load_example_username]
  from u[THEN conjunct1] u[THEN conjunct2, THEN conjunct1] show ?thesis by (intro conjI)
qed

theorem empty_name_counterexample:
  "snd (create_sandbox_username (example_env (Parsed example_config)) [] None None
          created_ok status_ready status_ready) \<noteq> []
   \<and> fst (create_sandbox_username (example_env (Parsed example_config)) [] None None
          created_ok status_ready status_ready) =
       created [] (JObj [(''name'', JStr ''s1''), (''ready'', JBool True)]) (JStr ''default'')
   \<and> \<not> is_failure (fst (create_sandbox_username (example_env (Parsed example_config)) [] None
          None created_ok status_ready status_ready))"
  unfolding create_username_accepted[OF load_example_username created_ok_accepted]
  by (simp add: status_ready_def ok_def Let_def example_config_def js_or_def created_def)

subsection \<open>C10: kubectl command lines are built without quoting\<close>

text \<open>
  C10. In the kubectl client every call of \<^verbatim>\<open>kubectl\<close> hands the shell one string: the
  word \<^verbatim>\<open>kubectl\<close>, the two flags and the arguments joined by spaces. The sandbox name
  that delete was given ends that string as it is, and a configured kubeconfig path and
  namespace stand in it as they are; nothing is quoted, escaped or checked. The last
  conjunct is an instance: with no configuration file, deleting the sandbox named
  \<^verbatim>\<open>x; rm -rf /\<close> executes \<^verbatim>\<open>kubectl  -n default delete sandbox x; rm -rf /\<close>.
\<close>

theorem kubectl_interpolates_verbatim:
  "snd (kubectl args config out) = [Exec (kubectl_cmd args config)]
   \<and> snd (delete_sandbox_kubectl e name out) =
       [Exec (kubectl_cmd [''delete'', ''sandbox'', name] (loadConfig_kubectl e))]
   \<and> kubectl_cmd [''delete'', ''sandbox'', name] config =
       kubectl_cmd [] config @ ''delete sandbox '' @ name
   \<and> (field config ''kubeconfig'' = JStr kc \<and> kc \<noteq> []
        \<and> field config ''namespace'' = JStr ns \<and> ns \<noteq> [] \<longrightarrow>
       kubectl_cmd [] config = ''kubectl --kubeconfig='' @ kc @ '' -n '' @ ns @ '' '')
   \<and> snd (delete_sandbox_kubectl (example_env ENOENT) injected_name (ExecOutput [])) =
       [Exec ''kubectl  -n default delete sandbox x; rm -rf /'']"
  by (intro conjI impI kubectl_trace delete_kubectl_trace kubectl_cmd_delete delete_injected)
     (simp add: kubectl_cmd_flags)

theorem kubectl_interpolates_verbatim_witness:
  "kubectl_cmd [''delete'', ''sandbox'', injected_name] kube_config =
     ''kubectl --kubeconfig=/tmp/k; id -n a b delete sandbox x; rm -rf /''"
proof -
  have h: "field kube_config ''kubeconfig'' = JStr ''/tmp/k; id'' \<and> ''/tmp/k; id'' \<noteq> []
        \<and> field kube_config ''namespace'' = JStr ''a b'' \<and> ''a b'' \<noteq> []"
    by (simp add: kube_config_def)
  note t = kubectl_interpolates_verbatim[where config = kube_config and name = injected_name
      and kc = "''/tmp/k; id''" and ns = "''a b''"]
  note a = t[THEN conjunct2, THEN conjunct2, THEN conjunct1]
  note b = t[THEN conjunct2, THEN conjunct2, THEN conjunct2, THEN conjunct1, THEN mp, OF h]
  show ?thesis unfolding a b by (simp add: injected_name_def)
qed

end
